theory Spec2Isabelle
  imports Complex_Main "HOL-Library.Word" "HOL-Library.Sublist"
begin

section \<open>MiniMe checkpoint proofs: the data model\<close>

text \<open>
  The development embeds \<^verbatim>\<open>token/minime/minime.go\<close> and
  \<^verbatim>\<open>token/erc20/erc20token.go\<close>. A storage word is a list of bytes, a hash is a
  256-bit word (its big-endian byte string read as a number), an address a 160-bit word.
  Go's \<^verbatim>\<open>*big.Int\<close> is \<open>int\<close>, \<^verbatim>\<open>*big.Rat\<close> is \<open>rat\<close>. Go's \<^verbatim>\<open>int\<close> is
  taken to be 64 bits wide and is kept as an \<open>int\<close> on which every operation that can
  leave the range is wrapped by \<open>int64\<close>.
\<close>

type_synonym byte = "8 word"
type_synonym hash = "256 word"
type_synonym address = "160 word"

text \<open>
  A Go error is a value. \<open>Remote\<close> is an error produced by a collaborator (the node, the
  contract binding) with its message, \<open>ErrSlotNotFound\<close> is the package's sentinel,
  \<open>Errorf\<close> a fresh error made by \<^verbatim>\<open>fmt.Errorf\<close> without wrapping, and \<open>Wrapf\<close> one
  made with the \<^verbatim>\<open>%w\<close> verb: a prefix and the wrapped error.
\<close>

datatype error = Remote string | ErrSlotNotFound | Errorf string | Wrapf string error

fun Error :: "error \<Rightarrow> string" where
  "Error (Remote m) = m"
| "Error ErrSlotNotFound = ''storage slot not found''"
| "Error (Errorf m) = m"
| "Error (Wrapf p e) = p @ Error e"

record TokenData =
  Address :: address
  Name :: string
  Symbol :: string
  Decimals :: "8 word"
  TotalSupply :: int

record 'p StorageProof =
  Payload :: 'p
  StateRoot :: hash
  Height :: int

text \<open>
  Everything the two files reach outside themselves is a field of one record: the node
  (\<open>StorageAt\<close>, \<open>BlockByNumber\<close>, the \<^verbatim>\<open>eth_getProof\<close> call), the contract binding
  (\<open>name\<close>, \<open>symbol\<close>, \<open>decimals\<close>, \<open>totalSupply\<close>, \<open>balanceOf\<close>), and the functions
  of the repository's other packages and files that are called but not part of the two
  files: \<^verbatim>\<open>helpers.GetMapSlot\<close>, \<^verbatim>\<open>helpers.HashFromPosition\<close>,
  \<^verbatim>\<open>helpers.BalanceToRat\<close> and \<^verbatim>\<open>ParseMinimeValue\<close>. They are parameters; no
  property of theirs is assumed. A read of the node is a function of its arguments: the
  remote state does not change during one call of the operations below.
\<close>

record 'p ERC20Token =
  TokenAddr :: address
  StorageAt :: "address \<Rightarrow> hash \<Rightarrow> int option \<Rightarrow> error + byte list"
  BlockByNumber :: "int option \<Rightarrow> error + hash \<times> int"
  CallGetProof :: "address \<Rightarrow> hash list \<Rightarrow> int option \<Rightarrow> error + 'p StorageProof"
  CallName :: "error + string"
  CallSymbol :: "error + string"
  CallDecimals :: "error + 8 word"
  CallTotalSupply :: "error + int"
  CallBalanceOf :: "address \<Rightarrow> error + int"
  GetMapSlot :: "address \<Rightarrow> int \<Rightarrow> hash"
  HashFromPosition :: "hash \<Rightarrow> hash"
  BalanceToRat :: "int \<Rightarrow> int \<Rightarrow> rat"
  ParseMinimeValue :: "byte list \<Rightarrow> int \<Rightarrow> rat \<times> int \<times> int"

section \<open>Integers and bytes\<close>

text \<open>\<^verbatim>\<open>big.Int.SetBytes\<close>: a byte string read as a big-endian unsigned number.\<close>

definition SetBytes :: "byte list \<Rightarrow> nat" where
  "SetBytes bs = foldl (\<lambda>acc b. acc * 256 + unat b) 0 bs"

text \<open>\<^verbatim>\<open>common.TrimLeftZeroes\<close>: the string without its leading zero bytes.\<close>

definition TrimLeftZeroes :: "byte list \<Rightarrow> byte list" where
  "TrimLeftZeroes bs = dropWhile (\<lambda>b. b = 0) bs"

text \<open>\<^verbatim>\<open>big.Int.Uint64\<close>: the low 64 bits of the absolute value.\<close>

definition Uint64 :: "int \<Rightarrow> nat" where
  "Uint64 x = nat \<bar>x\<bar> mod 2 ^ 64"

text \<open>The conversion \<^verbatim>\<open>int(u)\<close> of a \<^verbatim>\<open>uint64\<close>: the same 64 bits, read as signed.\<close>

definition int_of_uint64 :: "nat \<Rightarrow> int" where
  "int_of_uint64 u = (if u < 2 ^ 63 then int u else int u - 2 ^ 64)"

text \<open>The result of an \<^verbatim>\<open>int\<close> operation: the mathematical result wrapped to 64 bits.\<close>

definition int64 :: "int \<Rightarrow> int" where
  "int64 x = (x + 2 ^ 63) mod 2 ^ 64 - 2 ^ 63"

text \<open>
  \<^verbatim>\<open>common.BytesToHash(v.Bytes())\<close>: \<^verbatim>\<open>Bytes\<close> gives the absolute value of \<open>v\<close> in
  big-endian bytes, \<^verbatim>\<open>BytesToHash\<close> keeps the last 32 of them and pads on the left.
\<close>

definition BytesToHash :: "int \<Rightarrow> hash" where
  "BytesToHash v = word_of_nat (nat \<bar>v\<bar>)"

text \<open>\<^verbatim>\<open>strings.Contains\<close>.\<close>

fun Contains :: "string \<Rightarrow> string \<Rightarrow> bool" where
  "Contains [] sub = (sub = [])"
| "Contains (c # cs) sub = (prefix sub (c # cs) \<or> Contains cs sub)"

section \<open>erc20token.go\<close>

definition TokenName :: "'p ERC20Token \<Rightarrow> error + string" where
  "TokenName w = CallName w"

definition TokenSymbol :: "'p ERC20Token \<Rightarrow> error + string" where
  "TokenSymbol w = CallSymbol w"

definition TokenDecimals :: "'p ERC20Token \<Rightarrow> error + 8 word" where
  "TokenDecimals w = CallDecimals w"

definition TokenTotalSupply :: "'p ERC20Token \<Rightarrow> error + int" where
  "TokenTotalSupply w = CallTotalSupply w"

text \<open>
  \<^verbatim>\<open>GetTokenData\<close>: the four calls in the source's order. The name and the symbol
  have a placeholder when the error's message contains the marker; every other error
  ends the function.
\<close>

definition GetTokenData :: "'p ERC20Token \<Rightarrow> error + TokenData" where
  "GetTokenData w =
     (case (case TokenName w of
              Inr n \<Rightarrow> Inr n
            | Inl err \<Rightarrow>
                if Contains (Error err) ''unmarshal an empty string'' then Inr ''unknown-name''
                else Inl (Errorf (''unable to get token name data: '' @ Error err))) of
        Inl e \<Rightarrow> Inl e
      | Inr name \<Rightarrow>
     (case (case TokenSymbol w of
              Inr s \<Rightarrow> Inr s
            | Inl err \<Rightarrow>
                if Contains (Error err) ''unmarshal an empty string'' then Inr ''unknown-symbol''
                else Inl (Errorf (''unable to get token symbol data: '' @ Error err))) of
        Inl e \<Rightarrow> Inl e
      | Inr symbol \<Rightarrow>
     (case TokenDecimals w of
        Inl err \<Rightarrow> Inl (Errorf (''unable to get token decimals data: '' @ Error err))
      | Inr decimals \<Rightarrow>
     (case TokenTotalSupply w of
        Inl err \<Rightarrow> Inl (Errorf (''unable to get token supply data: '' @ Error err))
      | Inr supply \<Rightarrow>
          Inr \<lparr>Address = TokenAddr w, Name = name, Symbol = symbol,
               Decimals = decimals, TotalSupply = supply\<rparr>))))"

definition Balance :: "'p ERC20Token \<Rightarrow> address \<Rightarrow> error + rat" where
  "Balance w address =
     (case CallBalanceOf w address of
        Inl err \<Rightarrow> Inl err
      | Inr b \<Rightarrow>
          (case TokenDecimals w of
             Inl err \<Rightarrow> Inl err
           | Inr decimals \<Rightarrow> Inr (BalanceToRat w b (uint decimals))))"

text \<open>\<^verbatim>\<open>ERC20Token.GetProof\<close>: the block's header, then the \<^verbatim>\<open>eth_getProof\<close> call.\<close>

definition erc20_GetProof ::
  "'p ERC20Token \<Rightarrow> hash list \<Rightarrow> int option \<Rightarrow> error + 'p StorageProof" where
  "erc20_GetProof w keys block =
     (case BlockByNumber w block of
        Inl err \<Rightarrow> Inl err
      | Inr (stateRoot, number) \<Rightarrow>
          (case CallGetProof w (TokenAddr w) keys block of
             Inl err \<Rightarrow> Inl err
           | Inr resp \<Rightarrow> Inr (resp\<lparr>StateRoot := stateRoot, Height := number\<rparr>)))"

section \<open>minime.go\<close>

definition maxIterationsForDiscover :: int where
  "maxIterationsForDiscover = 20"

text \<open>
  The storage key of a position of the checkpoint array, as \<^verbatim>\<open>getMinimeAtPosition\<close>
  computes it: the hash of the map slot as a number, plus \<^verbatim>\<open>int64(position - 1)\<close>.
\<close>

definition arraySlot :: "'p ERC20Token \<Rightarrow> address \<Rightarrow> int \<Rightarrow> int \<Rightarrow> hash" where
  "arraySlot m holder mapIndexSlot position =
     (let mapSlot = GetMapSlot m holder mapIndexSlot;
          vf = HashFromPosition m mapSlot;
          offset = int64 (position - 1);
          v = uint vf + offset
      in BytesToHash v)"

definition getMinimeAtPosition ::
  "'p ERC20Token \<Rightarrow> address \<Rightarrow> int \<Rightarrow> int \<Rightarrow> int option \<Rightarrow> error + rat \<times> int \<times> hash" where
  "getMinimeAtPosition m holder mapIndexSlot position block =
     (case GetTokenData m of
        Inl err \<Rightarrow> Inl err
      | Inr token \<Rightarrow>
          (case StorageAt m (TokenAddr m) (arraySlot m holder mapIndexSlot position) block of
             Inl err \<Rightarrow> Inl err
           | Inr val \<Rightarrow>
               (case ParseMinimeValue m val (uint (Decimals token)) of
                  (balance, _, mblock) \<Rightarrow>
                    Inr (balance, mblock, arraySlot m holder mapIndexSlot position))))"

definition getMinimeArraySize :: "'p ERC20Token \<Rightarrow> address \<Rightarrow> int \<Rightarrow> error + int" where
  "getMinimeArraySize m holder islot =
     (case StorageAt m (TokenAddr m) (GetMapSlot m holder islot) None of
        Inl err \<Rightarrow> Inl err
      | Inr val \<Rightarrow> Inr (int_of_uint64 (Uint64 (int (SetBytes (TrimLeftZeroes val))))))"

text \<open>
  The discovery loop of \<^verbatim>\<open>DiscoverSlot\<close> from candidate \<open>i\<close> on, with the source's
  three results: the index, the amount (a pointer, so \<open>None\<close> is \<^verbatim>\<open>nil\<close>) and the error.
  \<^verbatim>\<open>continue\<close> is the recursive call, \<^verbatim>\<open>break\<close> leaves with \<open>index = i\<close>, and the
  end of the range leaves with \<open>index = -1\<close>, which the code after the loop turns into
  \<open>ErrSlotNotFound\<close>.
\<close>

function discoverLoop ::
  "'p ERC20Token \<Rightarrow> address \<Rightarrow> rat \<Rightarrow> int \<Rightarrow> int \<times> rat option \<times> error option" where
  "discoverLoop m holder balance i =
     (if i < maxIterationsForDiscover then
        (case getMinimeArraySize m holder i of
           Inl err \<Rightarrow> (0, None, Some err)
         | Inr checkPointsSize \<Rightarrow>
             if checkPointsSize \<le> 0 then discoverLoop m holder balance (i + 1)
             else
               (case getMinimeAtPosition m holder i checkPointsSize None of
                  Inl err \<Rightarrow> discoverLoop m holder balance (i + 1)
                | Inr (amount, block, _) \<Rightarrow>
                    if Uint64 block = 0 then discoverLoop m holder balance (i + 1)
                    else if amount = balance then (i, Some amount, None)
                    else discoverLoop m holder balance (i + 1)))
      else (-1, None, Some ErrSlotNotFound))"
  by pat_completeness auto
termination
  by (relation "measure (\<lambda>(m, holder, balance, i). nat (maxIterationsForDiscover - i))") auto

definition DiscoverSlot ::
  "'p ERC20Token \<Rightarrow> address \<Rightarrow> int \<times> rat option \<times> error option" where
  "DiscoverSlot m holder =
     (case Balance m holder of
        Inl err \<Rightarrow> (-1, None, Some err)
      | Inr balance \<Rightarrow> discoverLoop m holder balance 0)"

text \<open>
  The backward scan of \<^verbatim>\<open>GetProof\<close> from \<open>i\<close> down to 1. The result is the error the
  function returns from inside the loop, or the value of \<^verbatim>\<open>keys\<close> after the loop:
  two keys after \<^verbatim>\<open>break\<close>, none when the loop ran to its end. Inside the loop
  \<open>0 < i\<close>, so \<open>i - 1\<close> stays in range.
\<close>

function scanCheckpoints ::
  "'p ERC20Token \<Rightarrow> address \<Rightarrow> int \<Rightarrow> int \<Rightarrow> int \<Rightarrow> error + hash list" where
  "scanCheckpoints m holder islot block i =
     (if i > 0 then
        (case getMinimeAtPosition m holder islot (i - 1) (Some block) of
           Inl err \<Rightarrow> Inl (Wrapf ''cannot get minime: '' err)
         | Inr (_, checkpointBlock, prevSlot) \<Rightarrow>
             if Uint64 checkpointBlock \<ge> Uint64 block then
               (case getMinimeAtPosition m holder islot i (Some block) of
                  Inl err \<Rightarrow> Inl err
                | Inr (balance, block', currSlot) \<Rightarrow>
                    if balance > 0 then Inl (Errorf ''proof of nil has a balance value'')
                    else if Uint64 block' > 0 then Inl (Errorf ''proof of nil has a block value'')
                    else Inr [prevSlot, currSlot])
             else scanCheckpoints m holder islot block (i - 1))
      else Inr [])"
  by pat_completeness auto
termination
  by (relation "measure (\<lambda>(m, holder, islot, block, i). nat i)") auto

text \<open>
  \<^verbatim>\<open>Minime.GetProof\<close>. The target block is a \<^verbatim>\<open>*big.Int\<close> that the function
  dereferences, so it is an \<open>int\<close> here. \<open>keys\<close> is the source's variable: empty, or the
  two keys of the first branch; the scan runs only while it is empty.
\<close>

definition GetProof ::
  "'p ERC20Token \<Rightarrow> address \<Rightarrow> int \<Rightarrow> int \<Rightarrow> error + 'p StorageProof" where
  "GetProof m holder block islot =
     (case getMinimeArraySize m holder islot of
        Inl err \<Rightarrow> Inl (Wrapf ''cannot fetch minime array size: '' err)
      | Inr checkPointsSize \<Rightarrow>
     (case getMinimeAtPosition m holder islot checkPointsSize (Some block) of
        Inl err \<Rightarrow> Inl (Wrapf ''cannot get minime: '' err)
      | Inr (_, mblock, slot) \<Rightarrow>
     (case (if Uint64 block \<ge> Uint64 mblock then
              (case getMinimeAtPosition m holder islot (int64 (checkPointsSize + 1)) (Some block) of
                 Inl err \<Rightarrow> Inl err
               | Inr (_, _, slot2) \<Rightarrow> Inr [slot, slot2])
            else Inr []) of
        Inl err \<Rightarrow> Inl err
      | Inr keys \<Rightarrow>
     (case (if keys = [] then scanCheckpoints m holder islot block (int64 (checkPointsSize - 1))
            else Inr keys) of
        Inl err \<Rightarrow> Inl err
      | Inr keys' \<Rightarrow>
          if keys' = [] then Inl (Errorf ''checkpoint not found'')
          else erc20_GetProof m keys' (Some block)))))"

section \<open>The conditions of the discovery claims\<close>

text \<open>
  Candidate \<open>i\<close> passes every test of the discovery loop: its length reads as a positive
  \<^verbatim>\<open>int\<close>, its top entry reads, the block of the entry is not zero as a
  \<^verbatim>\<open>uint64\<close>, and the amount is the balance.
\<close>

definition candidateMatches :: "'p ERC20Token \<Rightarrow> address \<Rightarrow> rat \<Rightarrow> int \<Rightarrow> bool" where
  "candidateMatches m holder balance i =
     (case getMinimeArraySize m holder i of
        Inl err \<Rightarrow> False
      | Inr checkPointsSize \<Rightarrow>
          0 < checkPointsSize \<and>
          (case getMinimeAtPosition m holder i checkPointsSize None of
             Inl err \<Rightarrow> False
           | Inr (amount, block, _) \<Rightarrow> Uint64 block \<noteq> 0 \<and> amount = balance))"

section \<open>Test tokens\<close>

text \<open>
  Synthetic storage for the concrete cases. A checkpoint word has the balance in its upper
  16 bytes and the block number in its lower 16; \<open>parseTest\<close> reads it back. The token
  has no decimals, the map slot of candidate \<open>i\<close> is the key \<open>i\<close>, and the array of the
  map slot \<open>s\<close> starts at the key \<open>1000 * (s + 1)\<close>. The \<^verbatim>\<open>eth_getProof\<close> call answers
  with the keys it was asked for.
\<close>

definition zeroWord :: "byte list" where
  "zeroWord = replicate 32 0"

definition checkpointWord :: "nat \<Rightarrow> nat \<Rightarrow> byte list" where
  "checkpointWord bal blk =
     replicate 15 0 @ [word_of_nat bal] @ replicate 15 0 @ [word_of_nat blk]"

definition lengthWord :: "nat \<Rightarrow> byte list" where
  "lengthWord n = replicate 31 0 @ [word_of_nat n]"

text \<open>
  Modelled from the spec: \<^verbatim>\<open>ParseMinimeValue\<close> is not among the source files. The
  spec (section 3) packs the balance and the block number into two byte ranges of the
  32-byte word and scales the balance by the token's decimals. The test tokens take the
  upper 16 bytes for the balance and the lower 16 for the block number. Only the
  concrete cases use this parser; the general theorems hold for every parser.
\<close>

definition parseTest :: "byte list \<Rightarrow> int \<Rightarrow> rat \<times> int \<times> int" where
  "parseTest val decimals =
     (of_nat (SetBytes (take 16 val)) / 10 ^ nat decimals,
      int (SetBytes (take 16 val)), int (SetBytes (drop 16 val)))"

definition testToken ::
  "(hash \<Rightarrow> int option \<Rightarrow> error + byte list) \<Rightarrow> (hash list) ERC20Token" where
  "testToken store =
     \<lparr>TokenAddr = 1,
      StorageAt = (\<lambda>a k b. store k b),
      BlockByNumber = (\<lambda>b. Inr (5, case b of Some n \<Rightarrow> n | None \<Rightarrow> 0)),
      CallGetProof = (\<lambda>a keys b. Inr \<lparr>Payload = keys, StateRoot = 0, Height = 0\<rparr>),
      CallName = Inr ''Token'',
      CallSymbol = Inr ''TKN'',
      CallDecimals = Inr 0,
      CallTotalSupply = Inr 1000,
      CallBalanceOf = (\<lambda>a. Inr 10),
      GetMapSlot = (\<lambda>h i. word_of_int i),
      HashFromPosition = (\<lambda>s. (s + 1) * 1000),
      BalanceToRat = (\<lambda>b d. of_int b / 10 ^ nat d),
      ParseMinimeValue = parseTest\<rparr>"

text \<open>Four checkpoints, at the blocks 70, 80, 90 and 100, under the map slot 8.\<close>

definition storeFour :: "hash \<Rightarrow> int option \<Rightarrow> error + byte list" where
  "storeFour k b =
     Inr (if k = 8 then lengthWord 4
          else if k = 9000 then checkpointWord 7 70
          else if k = 9001 then checkpointWord 8 80
          else if k = 9002 then checkpointWord 9 90
          else if k = 9003 then checkpointWord 10 100
          else zeroWord)"

text \<open>
  The same four checkpoints as an archive node shows them: a read at a block sees only
  the checkpoints written up to that block, a read at the latest state (\<open>None\<close>) sees
  all of them.
\<close>

definition written :: "int option \<Rightarrow> int \<Rightarrow> bool" where
  "written b n = (case b of None \<Rightarrow> True | Some x \<Rightarrow> n \<le> x)"

definition storeHistory :: "hash \<Rightarrow> int option \<Rightarrow> error + byte list" where
  "storeHistory k b =
     Inr (if k = 8 then lengthWord 4
          else if k = 9000 \<and> written b 70 then checkpointWord 7 70
          else if k = 9001 \<and> written b 80 then checkpointWord 8 80
          else if k = 9002 \<and> written b 90 then checkpointWord 9 90
          else if k = 9003 \<and> written b 100 then checkpointWord 10 100
          else zeroWord)"

text \<open>One checkpoint, at block 100.\<close>

definition storeOne :: "hash \<Rightarrow> int option \<Rightarrow> error + byte list" where
  "storeOne k b =
     Inr (if k = 8 then lengthWord 1
          else if k = 9000 then checkpointWord 10 100
          else zeroWord)"

text \<open>
  The length read at the latest state is 1, and at the target block the position after it
  already holds a checkpoint (balance 5, block 200).
\<close>

definition storeGrown :: "hash \<Rightarrow> int option \<Rightarrow> error + byte list" where
  "storeGrown k b =
     Inr (if k = 8 then lengthWord 1
          else if k = 9000 then checkpointWord 10 100
          else if k = 9001 then checkpointWord 5 200
          else zeroWord)"

text \<open>
  Length 2, an unset first entry, a second entry at block 100, and a word of some other
  variable (balance 3, block 90) at the key before the array.
\<close>

definition storeBefore :: "hash \<Rightarrow> int option \<Rightarrow> error + byte list" where
  "storeBefore k b =
     Inr (if k = 8 then lengthWord 2
          else if k = 8999 then checkpointWord 3 90
          else if k = 9001 then checkpointWord 10 100
          else zeroWord)"

text \<open>The length read of candidate 0 fails; candidate 1 holds the holder's checkpoint.\<close>

definition storeRefused :: "hash \<Rightarrow> int option \<Rightarrow> error + byte list" where
  "storeRefused k b =
     (if k = 0 then Inl (Remote ''connection refused'')
      else if k = 1 then Inr (lengthWord 1)
      else if k = 2000 then Inr (checkpointWord 10 100)
      else Inr zeroWord)"

text \<open>
  Candidates 0 to 2 have length 0. Candidate 3 has length 2 and a top entry with the
  holder's balance and block 0. The top entry of candidate 4 cannot be read. Candidate 5
  holds the holder's checkpoint.
\<close>

definition storeSearch :: "hash \<Rightarrow> int option \<Rightarrow> error + byte list" where
  "storeSearch k b =
     (if k = 3 then Inr (lengthWord 2)
      else if k = 4001 then Inr (checkpointWord 10 0)
      else if k = 4 then Inr (lengthWord 1)
      else if k = 5000 then Inl (Remote ''timeout'')
      else if k = 5 then Inr (lengthWord 1)
      else if k = 6000 then Inr (checkpointWord 10 100)
      else Inr zeroWord)"

text \<open>Nothing is stored.\<close>

definition storeEmpty :: "hash \<Rightarrow> int option \<Rightarrow> error + byte list" where
  "storeEmpty k b = Inr zeroWord"

text \<open>The length word is \<open>2 ^ 63\<close>: the byte \<open>0x80\<close> at index 24 of 32.\<close>

definition hugeWord :: "byte list" where
  "hugeWord = replicate 24 0 @ [128] @ replicate 7 0"

definition storeHuge :: "hash \<Rightarrow> int option \<Rightarrow> error + byte list" where
  "storeHuge k b = Inr (if k = 8 then hugeWord else zeroWord)"

text \<open>
  Not from the source files or the spec: the error that the ABI decoder of go-ethereum
  (\<^verbatim>\<open>accounts/abi\<close>, \<^verbatim>\<open>Arguments.Unpack\<close>) returns when a contract call
  answers with no data and a result is expected, in the wording of the 1.10 releases of
  the library, which spell it with a double l. The library is an outside dependency of
  the repository and the text is recorded from it.
\<close>

definition emptyResult :: error where
  "emptyResult =
     Remote ''abi: attempting to unmarshall an empty string while arguments are expected''"

section \<open>Bytes and machine integers\<close>

lemma SetBytes_Nil: "SetBytes [] = 0"
  by (simp add: SetBytes_def)

lemma SetBytes_snoc: "SetBytes (bs @ [b]) = SetBytes bs * 256 + unat b"
  by (simp add: SetBytes_def)

lemma SetBytes_zero_Cons: "SetBytes (0 # bs) = SetBytes bs"
  by (simp add: SetBytes_def)

lemma SetBytes_zeros: "SetBytes (replicate n 0) = 0"
  by (induction n) (simp_all add: SetBytes_Nil SetBytes_zero_Cons)

lemma SetBytes_zeros_append: "SetBytes (replicate n 0 @ bs) = SetBytes bs"
  by (induction n) (simp_all add: SetBytes_zero_Cons)

lemma SetBytes_TrimLeftZeroes: "SetBytes (TrimLeftZeroes bs) = SetBytes bs"
  by (induction bs) (simp_all add: TrimLeftZeroes_def SetBytes_zero_Cons)

lemma SetBytes_zeroWord: "SetBytes zeroWord = 0"
  by (simp add: zeroWord_def SetBytes_zeros)

lemma SetBytes_lengthWord: "SetBytes (lengthWord n) = n mod 256"
  by (simp add: lengthWord_def SetBytes_snoc SetBytes_zeros unat_of_nat)

lemma SetBytes_append_zeros: "SetBytes (bs @ replicate n 0) = SetBytes bs * 256 ^ n"
proof (induction n)
  case 0
  show ?case by simp
next
  case (Suc n)
  have "SetBytes (bs @ replicate (Suc n) 0) = SetBytes ((bs @ replicate n 0) @ [0])"
    by (simp add: replicate_append_same)
  also have "\<dots> = SetBytes (bs @ replicate n 0) * 256"
    by (simp only: SetBytes_snoc) simp
  finally show ?case
    by (simp add: Suc.IH)
qed

lemma SetBytes_single: "SetBytes [b] = unat b"
  by (simp add: SetBytes_def)

lemma SetBytes_hugeWord: "SetBytes hugeWord = 2 ^ 63"
proof -
  have "SetBytes ([128] @ replicate 7 0) = 128 * 256 ^ 7"
    by (simp only: SetBytes_append_zeros SetBytes_single) simp
  then show ?thesis
    by (simp only: hugeWord_def SetBytes_zeros_append) simp
qed

lemma length_hugeWord: "length hugeWord = 32"
  by (simp add: hugeWord_def)

lemma length_lengthWord: "length (lengthWord n) = 32"
  by (simp add: lengthWord_def)

lemma getMinimeArraySize_Inr:
  assumes "StorageAt m (TokenAddr m) (GetMapSlot m holder islot) None = Inr val"
  shows "getMinimeArraySize m holder islot = Inr (int_of_uint64 (SetBytes val mod 2 ^ 64))"
  using assms by (simp add: getMinimeArraySize_def SetBytes_TrimLeftZeroes Uint64_def)

lemma getMinimeArraySize_Inl:
  assumes "StorageAt m (TokenAddr m) (GetMapSlot m holder islot) None = Inl err"
  shows "getMinimeArraySize m holder islot = Inl err"
  using assms by (simp add: getMinimeArraySize_def)

lemma int_of_uint64_range:
  "u < 2 ^ 64 \<Longrightarrow> - (2 ^ 63) \<le> int_of_uint64 u \<and> int_of_uint64 u < 2 ^ 63"
  by (simp add: int_of_uint64_def)

lemma getMinimeArraySize_range:
  assumes "getMinimeArraySize m holder islot = Inr n"
  shows "- (2 ^ 63) \<le> n \<and> n < 2 ^ 63"
proof -
  obtain val where "n = int_of_uint64 (Uint64 (int (SetBytes (TrimLeftZeroes val))))"
    using assms by (auto simp: getMinimeArraySize_def split: sum.splits)
  moreover have "Uint64 x < 2 ^ 64" for x
    by (simp add: Uint64_def)
  ultimately show ?thesis
    using int_of_uint64_range by blast
qed

lemma int64_id: "- (2 ^ 63) \<le> x \<Longrightarrow> x < 2 ^ 63 \<Longrightarrow> int64 x = x"
  by (simp add: int64_def)

section \<open>The array length\<close>

text \<open>
  C8 (as amended). When the read of the array-length slot gives the bytes \<open>val\<close>,
  stripping the leading zero bytes does not change their big-endian value, and
  \<^verbatim>\<open>getMinimeArraySize\<close> returns the low 64 bits of that value read as a signed
  64-bit integer. For a value below \<open>2 ^ 63\<close> this is the value itself, which is not
  negative.
\<close>

theorem getMinimeArraySize_low_64_bits_signed:
  assumes "StorageAt m (TokenAddr m) (GetMapSlot m holder islot) None = Inr val"
  shows "SetBytes (TrimLeftZeroes val) = SetBytes val \<and>
         getMinimeArraySize m holder islot =
           Inr (if SetBytes val mod 2 ^ 64 < 2 ^ 63 then int (SetBytes val mod 2 ^ 64)
                else int (SetBytes val mod 2 ^ 64) - 2 ^ 64) \<and>
         (SetBytes val < 2 ^ 63 \<longrightarrow>
            getMinimeArraySize m holder islot = Inr (int (SetBytes val)))"
  using getMinimeArraySize_Inr [OF assms]
  by (simp add: SetBytes_TrimLeftZeroes int_of_uint64_def)

text \<open>A length word of 32 bytes with the value 4.\<close>

theorem getMinimeArraySize_low_64_bits_signed_witness:
  "StorageAt (testToken storeFour) (TokenAddr (testToken storeFour))
     (GetMapSlot (testToken storeFour) 77 8) None = Inr (lengthWord 4) \<and>
   length (lengthWord 4) = 32 \<and> SetBytes (lengthWord 4) = 4 \<and>
   getMinimeArraySize (testToken storeFour) 77 8 = Inr 4"
proof -
  have r: "StorageAt (testToken storeFour) (TokenAddr (testToken storeFour))
     (GetMapSlot (testToken storeFour) 77 8) None = Inr (lengthWord 4)"
    by (simp add: testToken_def storeFour_def)
  show ?thesis
    using r getMinimeArraySize_low_64_bits_signed [OF r]
    by (simp add: SetBytes_lengthWord length_lengthWord)
qed

text \<open>
  The 32-byte length word with the value \<open>2 ^ 63\<close>: the result is negative and differs
  from the value of the word.
\<close>

theorem getMinimeArraySize_negative_counterexample:
  "StorageAt (testToken storeHuge) (TokenAddr (testToken storeHuge))
     (GetMapSlot (testToken storeHuge) 77 8) None = Inr hugeWord \<and>
   length hugeWord = 32 \<and> SetBytes (TrimLeftZeroes hugeWord) = 9223372036854775808 \<and>
   getMinimeArraySize (testToken storeHuge) 77 8 = Inr (- 9223372036854775808)"
proof -
  have r: "StorageAt (testToken storeHuge) (TokenAddr (testToken storeHuge))
     (GetMapSlot (testToken storeHuge) 77 8) None = Inr hugeWord"
    by (simp add: testToken_def storeHuge_def)
  show ?thesis
    using r getMinimeArraySize_Inr [OF r]
    by (simp add: SetBytes_hugeWord SetBytes_TrimLeftZeroes length_hugeWord int_of_uint64_def)
qed

text \<open>
  The equations of the two loops are unconditional; they are applied one step at a time.
\<close>

declare scanCheckpoints.simps [simp del] discoverLoop.simps [simp del]


section \<open>Reading one position\<close>

lemma Uint64_id: "0 \<le> x \<Longrightarrow> x < 2 ^ 64 \<Longrightarrow> Uint64 x = nat x"
  by (simp add: Uint64_def nat_less_iff)

lemma Uint64_mono: "0 \<le> a \<Longrightarrow> a \<le> b \<Longrightarrow> b < 2 ^ 64 \<Longrightarrow> Uint64 a \<le> Uint64 b"
  by (simp add: Uint64_id)

lemma Uint64_0: "Uint64 0 = 0"
  by (simp add: Uint64_def)

lemma Uint64_eq_0D: "Uint64 x \<noteq> 0 \<Longrightarrow> x \<noteq> 0"
  by (auto simp: Uint64_def)

lemma BytesToHash_nonneg: "0 \<le> v \<Longrightarrow> BytesToHash v = word_of_int v"
  by (simp add: BytesToHash_def)

lemma getMinimeAtPosition_key:
  "getMinimeAtPosition m holder islot p b = Inr (bal, blk, k) \<Longrightarrow> k = arraySlot m holder islot p"
  by (auto simp: getMinimeAtPosition_def split: sum.splits prod.splits)

lemma arraySlot_position_0:
  "arraySlot m holder islot 0 =
     BytesToHash (uint (HashFromPosition m (GetMapSlot m holder islot)) + (0 - 1))"
  by (simp add: arraySlot_def int64_def)

lemma arraySlot_position_1:
  "arraySlot m holder islot 1 = HashFromPosition m (GetMapSlot m holder islot)"
  by (simp add: arraySlot_def int64_def BytesToHash_nonneg)

lemma before_first_entry:
  fixes vf :: hash
  assumes "vf \<noteq> 0"
  shows "BytesToHash (uint vf + (0 - 1)) + 1 = vf"
proof -
  have "uint vf \<noteq> 0"
    using assms by (simp add: uint_0_iff)
  moreover have "0 \<le> uint vf"
    by simp
  ultimately have "0 < uint vf"
    by linarith
  then have "BytesToHash (uint vf + (0 - 1)) = word_of_int (uint vf - 1)"
    by (simp add: BytesToHash_nonneg)
  also have "\<dots> = vf - 1"
    by simp
  finally show ?thesis
    by simp
qed

section \<open>The backward scan\<close>

lemma scan_stop:
  "i \<le> 0 \<Longrightarrow> scanCheckpoints m holder islot block i = Inr []"
  by (subst scanCheckpoints.simps) simp

lemma scan_continue:
  assumes "0 < i"
    and "getMinimeAtPosition m holder islot (i - 1) (Some block) = Inr (b, cb, k)"
    and "Uint64 cb < Uint64 block"
  shows "scanCheckpoints m holder islot block i = scanCheckpoints m holder islot block (i - 1)"
  using assms by (subst scanCheckpoints.simps) simp

lemma scan_select:
  assumes "0 < i"
    and "getMinimeAtPosition m holder islot (i - 1) (Some block) = Inr (b, cb, prevSlot)"
    and "Uint64 block \<le> Uint64 cb"
  shows "scanCheckpoints m holder islot block i =
           (case getMinimeAtPosition m holder islot i (Some block) of
              Inl err \<Rightarrow> Inl err
            | Inr (balance, block', currSlot) \<Rightarrow>
                if balance > 0 then Inl (Errorf ''proof of nil has a balance value'')
                else if Uint64 block' > 0 then Inl (Errorf ''proof of nil has a block value'')
                else Inr [prevSlot, currSlot])"
  using assms by (subst scanCheckpoints.simps) simp

lemma scan_read_error:
  assumes "0 < i"
    and "getMinimeAtPosition m holder islot (i - 1) (Some block) = Inl err"
  shows "scanCheckpoints m holder islot block i = Inl (Wrapf ''cannot get minime: '' err)"
  using assms by (subst scanCheckpoints.simps) simp

lemma scan_descend:
  assumes "j \<le> n" and "0 \<le> j"
    and "\<forall>i. j < i \<and> i \<le> n \<longrightarrow>
           (\<exists>b cb k. getMinimeAtPosition m holder islot (i - 1) (Some block) = Inr (b, cb, k)
                      \<and> Uint64 cb < Uint64 block)"
  shows "scanCheckpoints m holder islot block n = scanCheckpoints m holder islot block j"
  using assms(1,3)
proof (induction n rule: int_ge_induct)
  case base
  show ?case by simp
next
  case (step n)
  from step.prems obtain b cb k where
    r: "getMinimeAtPosition m holder islot ((n + 1) - 1) (Some block) = Inr (b, cb, k)"
    and c: "Uint64 cb < Uint64 block"
  proof -
    have "j < n + 1 \<and> n + 1 \<le> n + 1"
      using step.hyps by simp
    with step.prems show ?thesis
      using that by blast
  qed
  have "scanCheckpoints m holder islot block (n + 1) =
        scanCheckpoints m holder islot block ((n + 1) - 1)"
    using assms(2) step.hyps by (intro scan_continue [OF _ r c]) simp
  moreover have "scanCheckpoints m holder islot block n = scanCheckpoints m holder islot block j"
    using step.prems by (intro step.IH) auto
  ultimately show ?case by simp
qed

section \<open>The two branches of GetProof\<close>

lemma GetProof_first_branch:
  assumes "getMinimeArraySize m holder islot = Inr count"
    and "getMinimeAtPosition m holder islot count (Some block) = Inr (bal, mblock, slot)"
    and "Uint64 mblock \<le> Uint64 block"
  shows "GetProof m holder block islot =
           (case getMinimeAtPosition m holder islot (int64 (count + 1)) (Some block) of
              Inl err \<Rightarrow> Inl err
            | Inr (bal2, blk2, slot2) \<Rightarrow> erc20_GetProof m [slot, slot2] (Some block))"
  using assms by (simp add: GetProof_def split: sum.splits)

lemma GetProof_scan_branch:
  assumes "getMinimeArraySize m holder islot = Inr count"
    and "getMinimeAtPosition m holder islot count (Some block) = Inr (bal, mblock, slot)"
    and "Uint64 block < Uint64 mblock"
  shows "GetProof m holder block islot =
           (case scanCheckpoints m holder islot block (int64 (count - 1)) of
              Inl err \<Rightarrow> Inl err
            | Inr keys \<Rightarrow>
                if keys = [] then Inl (Errorf ''checkpoint not found'')
                else erc20_GetProof m keys (Some block))"
  using assms by (simp add: GetProof_def)

section \<open>Facts about the test tokens\<close>

lemma parseTest_checkpointWord:
  "parseTest (checkpointWord bal blk) d =
     (of_nat (bal mod 256) / 10 ^ nat d, int (bal mod 256), int (blk mod 256))"
proof -
  have t: "take 16 (checkpointWord bal blk) = replicate 15 0 @ [word_of_nat bal]"
    by (simp add: checkpointWord_def)
  have d: "drop 16 (checkpointWord bal blk) = replicate 15 0 @ [word_of_nat blk]"
    by (simp add: checkpointWord_def)
  show ?thesis
    by (simp add: parseTest_def t d SetBytes_snoc SetBytes_zeros unat_of_nat)
qed

lemma parseTest_zeroWord: "parseTest zeroWord d = (0, 0, 0)"
proof -
  have t: "take 16 zeroWord = replicate 16 0"
    by (simp add: zeroWord_def)
  have d: "drop 16 zeroWord = replicate 16 0"
    by (simp add: zeroWord_def)
  show ?thesis
    by (simp add: parseTest_def t d SetBytes_zeros)
qed

lemma GetTokenData_testToken:
  "GetTokenData (testToken store) =
     Inr \<lparr>Address = 1, Name = ''Token'', Symbol = ''TKN'', Decimals = 0, TotalSupply = 1000\<rparr>"
  by (simp add: GetTokenData_def testToken_def TokenName_def TokenSymbol_def
      TokenDecimals_def TokenTotalSupply_def)

lemma testToken_hash: "((word_of_int s + 1) * 1000 :: hash) = word_of_int ((s + 1) * 1000)"
  by (simp only: word_of_int_hom_syms) simp

lemma testToken_hash_bound: "0 \<le> s \<Longrightarrow> s < 20 \<Longrightarrow> (s + 1) * 1000 < (2::int) ^ 256"
  by (rule less_trans [of _ "21000"]) simp_all

lemma uint_word_of_int_hash: "0 \<le> x \<Longrightarrow> x < 2 ^ 256 \<Longrightarrow> uint (word_of_int x :: hash) = x"
  by (simp add: uint_word_of_int take_bit_eq_mod)

lemma arraySlot_testToken:
  assumes "0 \<le> s" "s < 20" "0 \<le> p" "p < 1000"
  shows "arraySlot (testToken store) h s p = word_of_int (1000 * (s + 1) + p - 1)"
proof -
  have u: "uint (HashFromPosition (testToken store) (GetMapSlot (testToken store) h s))
             = (s + 1) * 1000"
    unfolding testToken_def ERC20Token.simps testToken_hash
    using assms by (intro uint_word_of_int_hash testToken_hash_bound) simp_all
  have i: "int64 (p - 1) = p - 1"
    using assms by (intro int64_id) simp_all
  have "arraySlot (testToken store) h s p = BytesToHash ((s + 1) * 1000 + (p - 1))"
    unfolding arraySlot_def Let_def u i ..
  also have "\<dots> = word_of_int ((s + 1) * 1000 + (p - 1))"
    using assms by (intro BytesToHash_nonneg) simp
  finally show ?thesis
    by (simp add: algebra_simps)
qed

lemma getMinimeAtPosition_testToken:
  assumes "store (arraySlot (testToken store) h s p) b = Inr val"
  shows "getMinimeAtPosition (testToken store) h s p b =
           Inr (fst (parseTest val 0), snd (snd (parseTest val 0)),
                arraySlot (testToken store) h s p)"
proof -
  have "StorageAt (testToken store) (TokenAddr (testToken store))
          (arraySlot (testToken store) h s p) b = Inr val"
    using assms by (simp add: testToken_def)
  moreover have "ParseMinimeValue (testToken store) = parseTest"
    by (simp add: testToken_def)
  ultimately show ?thesis
    by (simp add: getMinimeAtPosition_def GetTokenData_testToken split: prod.splits)
qed

lemma getMinimeAtPosition_testToken_error:
  assumes "store (arraySlot (testToken store) h s p) b = Inl err"
  shows "getMinimeAtPosition (testToken store) h s p b = Inl err"
proof -
  have "StorageAt (testToken store) (TokenAddr (testToken store))
          (arraySlot (testToken store) h s p) b = Inl err"
    using assms by (simp add: testToken_def)
  then show ?thesis
    by (simp add: getMinimeAtPosition_def GetTokenData_testToken)
qed

lemma getMinimeArraySize_testToken:
  assumes "store (word_of_int s) None = Inr val"
  shows "getMinimeArraySize (testToken store) h s = Inr (int_of_uint64 (SetBytes val mod 2 ^ 64))"
  by (rule getMinimeArraySize_Inr) (simp add: testToken_def assms)

lemma erc20_GetProof_testToken:
  "erc20_GetProof (testToken store) keys (Some b) =
     Inr \<lparr>Payload = keys, StateRoot = 5, Height = b\<rparr>"
  by (simp add: erc20_GetProof_def testToken_def)

lemma Balance_testToken: "Balance (testToken store) h = Inr 10"
  by (simp add: Balance_def testToken_def TokenDecimals_def)

lemma storeFour_size: "getMinimeArraySize (testToken storeFour) h 8 = Inr 4"
  using getMinimeArraySize_testToken [of storeFour 8 "lengthWord 4" h]
  by (simp add: storeFour_def SetBytes_lengthWord int_of_uint64_def)

lemma storeFour_positions:
  "getMinimeAtPosition (testToken storeFour) h 8 0 b = Inr (0, 0, 8999)"
  "getMinimeAtPosition (testToken storeFour) h 8 1 b = Inr (7, 70, 9000)"
  "getMinimeAtPosition (testToken storeFour) h 8 2 b = Inr (8, 80, 9001)"
  "getMinimeAtPosition (testToken storeFour) h 8 3 b = Inr (9, 90, 9002)"
  "getMinimeAtPosition (testToken storeFour) h 8 4 b = Inr (10, 100, 9003)"
  using getMinimeAtPosition_testToken [of storeFour h 8 0 b zeroWord]
    getMinimeAtPosition_testToken [of storeFour h 8 1 b "checkpointWord 7 70"]
    getMinimeAtPosition_testToken [of storeFour h 8 2 b "checkpointWord 8 80"]
    getMinimeAtPosition_testToken [of storeFour h 8 3 b "checkpointWord 9 90"]
    getMinimeAtPosition_testToken [of storeFour h 8 4 b "checkpointWord 10 100"]
  by (simp_all add: arraySlot_testToken storeFour_def parseTest_checkpointWord parseTest_zeroWord)

lemma storeOne_size: "getMinimeArraySize (testToken storeOne) h 8 = Inr 1"
  using getMinimeArraySize_testToken [of storeOne 8 "lengthWord 1" h]
  by (simp add: storeOne_def SetBytes_lengthWord int_of_uint64_def)

lemma storeOne_positions:
  "getMinimeAtPosition (testToken storeOne) h 8 1 b = Inr (10, 100, 9000)"
  "getMinimeAtPosition (testToken storeOne) h 8 2 b = Inr (0, 0, 9001)"
  using getMinimeAtPosition_testToken [of storeOne h 8 1 b "checkpointWord 10 100"]
    getMinimeAtPosition_testToken [of storeOne h 8 2 b zeroWord]
  by (simp_all add: arraySlot_testToken storeOne_def parseTest_checkpointWord parseTest_zeroWord)

lemma storeGrown_size: "getMinimeArraySize (testToken storeGrown) h 8 = Inr 1"
  using getMinimeArraySize_testToken [of storeGrown 8 "lengthWord 1" h]
  by (simp add: storeGrown_def SetBytes_lengthWord int_of_uint64_def)

lemma storeGrown_positions:
  "getMinimeAtPosition (testToken storeGrown) h 8 1 b = Inr (10, 100, 9000)"
  "getMinimeAtPosition (testToken storeGrown) h 8 2 b = Inr (5, 200, 9001)"
  using getMinimeAtPosition_testToken [of storeGrown h 8 1 b "checkpointWord 10 100"]
    getMinimeAtPosition_testToken [of storeGrown h 8 2 b "checkpointWord 5 200"]
  by (simp_all add: arraySlot_testToken storeGrown_def parseTest_checkpointWord)

lemma storeBefore_size: "getMinimeArraySize (testToken storeBefore) h 8 = Inr 2"
  using getMinimeArraySize_testToken [of storeBefore 8 "lengthWord 2" h]
  by (simp add: storeBefore_def SetBytes_lengthWord int_of_uint64_def)

lemma storeBefore_positions:
  "getMinimeAtPosition (testToken storeBefore) h 8 0 b = Inr (3, 90, 8999)"
  "getMinimeAtPosition (testToken storeBefore) h 8 1 b = Inr (0, 0, 9000)"
  "getMinimeAtPosition (testToken storeBefore) h 8 2 b = Inr (10, 100, 9001)"
  using getMinimeAtPosition_testToken [of storeBefore h 8 0 b "checkpointWord 3 90"]
    getMinimeAtPosition_testToken [of storeBefore h 8 1 b zeroWord]
    getMinimeAtPosition_testToken [of storeBefore h 8 2 b "checkpointWord 10 100"]
  by (simp_all add: arraySlot_testToken storeBefore_def parseTest_checkpointWord
      parseTest_zeroWord)

lemma testToken_slots:
  "arraySlot (testToken store) h 8 0 = 8999"
  "arraySlot (testToken store) h 8 1 = 9000"
  "arraySlot (testToken store) h 8 2 = 9001"
  "arraySlot (testToken store) h 8 3 = 9002"
  by (simp_all add: arraySlot_testToken)

section \<open>Checkpoint selection\<close>

text \<open>
  C1. The checkpoints are at the blocks 70, 80, 90 and 100 (positions 1 to 4) and the
  target block is 87. The scan compares the blocks 80, 70 and the word before the array
  with 87, finds none that is at least 87, and ends: the function fails with
  \<open>checkpoint not found\<close> and returns no keys, where its documentation asks for the
  checkpoints 80 and 90 (positions 2 and 3).
\<close>

theorem GetProof_four_checkpoints_target_87:
  "getMinimeArraySize (testToken storeFour) 77 8 = Inr 4 \<and>
   getMinimeAtPosition (testToken storeFour) 77 8 1 (Some 87) = Inr (7, 70, 9000) \<and>
   getMinimeAtPosition (testToken storeFour) 77 8 2 (Some 87) = Inr (8, 80, 9001) \<and>
   getMinimeAtPosition (testToken storeFour) 77 8 3 (Some 87) = Inr (9, 90, 9002) \<and>
   getMinimeAtPosition (testToken storeFour) 77 8 4 (Some 87) = Inr (10, 100, 9003) \<and>
   GetProof (testToken storeFour) 77 87 8 = Inl (Errorf ''checkpoint not found'')"
proof -
  have "\<exists>b cb k. getMinimeAtPosition (testToken storeFour) 77 8 (i - 1) (Some 87) = Inr (b, cb, k)
           \<and> Uint64 cb < Uint64 87" if "0 < i \<and> i \<le> 3" for i
  proof -
    from that consider "i = 1" | "i = 2" | "i = 3"
      by linarith
    then show ?thesis
      by cases (simp_all add: storeFour_positions Uint64_def)
  qed
  then have "scanCheckpoints (testToken storeFour) 77 8 87 3 =
        scanCheckpoints (testToken storeFour) 77 8 87 0"
    by (intro scan_descend) simp_all
  then show ?thesis
    using GetProof_scan_branch [of "testToken storeFour" 77 8 4 87 10 100 9003]
    by (simp add: storeFour_size storeFour_positions Uint64_def int64_def scan_stop)
qed


text \<open>
  With the storage of an archive node the array length, read at the latest state, is 4,
  but at block 87 the positions 3 and 4 are not yet written. Position 4 decodes with the
  block 0, the first branch is taken, and the proof is that of the keys of the positions
  4 and 5, again not that of the positions 2 and 3.
\<close>

lemma GetProof_four_checkpoints_history_target_87:
  "getMinimeArraySize (testToken storeHistory) 77 8 = Inr 4 \<and>
   getMinimeAtPosition (testToken storeHistory) 77 8 2 (Some 87) = Inr (8, 80, 9001) \<and>
   getMinimeAtPosition (testToken storeHistory) 77 8 3 (Some 87) = Inr (0, 0, 9002) \<and>
   getMinimeAtPosition (testToken storeHistory) 77 8 4 (Some 87) = Inr (0, 0, 9003) \<and>
   GetProof (testToken storeHistory) 77 87 8 =
     Inr \<lparr>Payload = [9003, 9004], StateRoot = 5, Height = 87\<rparr>"
proof -
  have sz: "getMinimeArraySize (testToken storeHistory) 77 8 = Inr 4"
    using getMinimeArraySize_testToken [of storeHistory 8 "lengthWord 4" 77]
    by (simp add: storeHistory_def SetBytes_lengthWord int_of_uint64_def)
  have p: "getMinimeAtPosition (testToken storeHistory) 77 8 2 (Some 87) = Inr (8, 80, 9001)"
    "getMinimeAtPosition (testToken storeHistory) 77 8 3 (Some 87) = Inr (0, 0, 9002)"
    "getMinimeAtPosition (testToken storeHistory) 77 8 4 (Some 87) = Inr (0, 0, 9003)"
    "getMinimeAtPosition (testToken storeHistory) 77 8 5 (Some 87) = Inr (0, 0, 9004)"
    using getMinimeAtPosition_testToken [of storeHistory 77 8 2 "Some 87" "checkpointWord 8 80"]
      getMinimeAtPosition_testToken [of storeHistory 77 8 3 "Some 87" zeroWord]
      getMinimeAtPosition_testToken [of storeHistory 77 8 4 "Some 87" zeroWord]
      getMinimeAtPosition_testToken [of storeHistory 77 8 5 "Some 87" zeroWord]
    by (simp_all add: arraySlot_testToken storeHistory_def written_def
        parseTest_checkpointWord parseTest_zeroWord)
  show ?thesis
    using GetProof_first_branch [of "testToken storeHistory" 77 8 4 87 0 0 9003]
    by (simp add: sz p Uint64_def int64_def erc20_GetProof_testToken)
qed

text \<open>
  Whatever the storage holds, the two keys the scan selects never are two checkpoints:
  the second one is a position that decodes with no positive balance and with a block
  number whose low 64 bits are zero.
\<close>

lemma scan_selects_nil:
  "scanCheckpoints m holder islot block i = Inr keys \<Longrightarrow> keys \<noteq> [] \<Longrightarrow>
     \<exists>j bal blk prevSlot currSlot. keys = [prevSlot, currSlot] \<and>
        getMinimeAtPosition m holder islot j (Some block) = Inr (bal, blk, currSlot) \<and>
        bal \<le> 0 \<and> Uint64 blk = 0"
proof (induction m holder islot block i rule: scanCheckpoints.induct)
  case (1 m holder islot block i)
  show ?case
  proof (cases "0 < i")
    case False
    with "1.prems" show ?thesis
      by (simp add: scan_stop)
  next
    case True
    show ?thesis
    proof (cases "getMinimeAtPosition m holder islot (i - 1) (Some block)")
      case (Inl err)
      with True "1.prems" show ?thesis
        by (simp add: scan_read_error)
    next
      case (Inr r)
      obtain b cb prevSlot where r: "r = (b, cb, prevSlot)"
        by (cases r) auto
      show ?thesis
      proof (cases "Uint64 block \<le> Uint64 cb")
        case False
        then have "scanCheckpoints m holder islot block i =
                   scanCheckpoints m holder islot block (i - 1)"
          using True Inr r by (intro scan_continue) auto
        with "1.IH" [OF True Inr r [THEN sym] refl] False "1.prems" show ?thesis
          by simp
      next
        case sel: True
        from scan_select [OF True Inr [unfolded r] sel] "1.prems" show ?thesis
          by (fastforce simp: not_less split: sum.splits prod.splits if_splits)
      qed
    qed
  qed
qed

text \<open>
  C4. The same four checkpoints and the target block 50, older than all of them. The
  first step of the scan finds the block 80 at position 2, which is at least 50, and then
  demands that position 3 be unset; it holds the checkpoint of block 90, so the function
  fails with \<open>proof of nil has a balance value\<close>, not with \<open>checkpoint not found\<close>.
\<close>

theorem GetProof_four_checkpoints_target_50:
  "getMinimeArraySize (testToken storeFour) 77 8 = Inr 4 \<and>
   getMinimeAtPosition (testToken storeFour) 77 8 2 (Some 50) = Inr (8, 80, 9001) \<and>
   getMinimeAtPosition (testToken storeFour) 77 8 3 (Some 50) = Inr (9, 90, 9002) \<and>
   getMinimeAtPosition (testToken storeFour) 77 8 4 (Some 50) = Inr (10, 100, 9003) \<and>
   GetProof (testToken storeFour) 77 50 8 = Inl (Errorf ''proof of nil has a balance value'')"
proof -
  have "scanCheckpoints (testToken storeFour) 77 8 50 3 =
        Inl (Errorf ''proof of nil has a balance value'')"
    using scan_select [of 3 "testToken storeFour" 77 8 50 8 80 9001]
    by (simp add: storeFour_positions Uint64_def)
  then show ?thesis
    using GetProof_scan_branch [of "testToken storeFour" 77 8 4 50 10 100 9003]
    by (simp add: storeFour_size storeFour_positions Uint64_def int64_def)
qed

text \<open>
  The exhausted scan: when no step of the scan from \<open>count - 1\<close> down to 1 finds a block
  that is at least the target, the function fails with \<open>checkpoint not found\<close>.
\<close>

lemma GetProof_scan_exhausted:
  assumes "getMinimeArraySize m holder islot = Inr count"
    and "getMinimeAtPosition m holder islot count (Some block) = Inr (bal, mblock, slot)"
    and "Uint64 block < Uint64 mblock"
    and "0 \<le> count"
    and "\<forall>i. 0 < i \<and> i < count \<longrightarrow>
           (\<exists>b cb k. getMinimeAtPosition m holder islot (i - 1) (Some block) = Inr (b, cb, k)
                      \<and> Uint64 cb < Uint64 block)"
  shows "GetProof m holder block islot = Inl (Errorf ''checkpoint not found'')"
proof -
  have range: "- (2 ^ 63) \<le> count \<and> count < 2 ^ 63"
    using assms(1) by (rule getMinimeArraySize_range)
  show ?thesis
  proof (cases "0 < count")
    case False
    with assms(4) have "count = 0"
      by simp
    then have "int64 (count - 1) \<le> 0"
      by (simp add: int64_def)
    then show ?thesis
      using GetProof_scan_branch [OF assms(1,2,3)] by (simp add: scan_stop)
  next
    case True
    with range have i: "int64 (count - 1) = count - 1"
      by (intro int64_id) simp_all
    have "scanCheckpoints m holder islot block (count - 1) =
          scanCheckpoints m holder islot block 0"
      using True assms(5) by (intro scan_descend) auto
    then show ?thesis
      using GetProof_scan_branch [OF assms(1,2,3)] by (simp add: i scan_stop)
  qed
qed

text \<open>
  C3 (as amended). When the checkpoint at position \<open>count\<close>, read at the target block,
  has a block number that is at most the target, and both are in the range of
  \<^verbatim>\<open>uint64\<close> (the block number is not negative, the target is below \<open>2 ^ 64\<close>),
  \<^verbatim>\<open>GetProof\<close> reads position \<open>count + 1\<close> and asks for the
  proof of exactly the keys of the positions \<open>count\<close> and \<open>count + 1\<close>, in this order;
  the only other outcome is the error of that read.
\<close>

theorem GetProof_at_or_beyond_newest:
  assumes "getMinimeArraySize m holder islot = Inr count"
    and "getMinimeAtPosition m holder islot count (Some targetBlock) =
           Inr (bal, lastKnownBlock, slot)"
    and "0 \<le> lastKnownBlock" and "lastKnownBlock \<le> targetBlock" and "targetBlock < 2 ^ 64"
  shows "GetProof m holder targetBlock islot =
           (case getMinimeAtPosition m holder islot (int64 (count + 1)) (Some targetBlock) of
              Inl err \<Rightarrow> Inl err
            | Inr r \<Rightarrow>
                erc20_GetProof m
                  [arraySlot m holder islot count, arraySlot m holder islot (int64 (count + 1))]
                  (Some targetBlock))"
proof -
  have c: "Uint64 lastKnownBlock \<le> Uint64 targetBlock"
    using assms(3,4,5) by (rule Uint64_mono)
  have k: "slot = arraySlot m holder islot count"
    using assms(2) by (rule getMinimeAtPosition_key)
  show ?thesis
  proof (cases "getMinimeAtPosition m holder islot (int64 (count + 1)) (Some targetBlock)")
    case (Inl err)
    with GetProof_first_branch [OF assms(1,2) c] show ?thesis
      by simp
  next
    case (Inr r)
    obtain bal2 blk2 slot2 where r: "r = (bal2, blk2, slot2)"
      by (cases r) auto
    have "slot2 = arraySlot m holder islot (int64 (count + 1))"
      using Inr r by (intro getMinimeAtPosition_key [of m holder islot _ _ bal2 blk2]) simp
    with GetProof_first_branch [OF assms(1,2) c] Inr r k show ?thesis
      by simp
  qed
qed

text \<open>
  A single checkpoint at block 100 and the target block 105: the keys are those of the
  positions 1 and 2, and position 2 is unset.
\<close>

theorem GetProof_at_or_beyond_newest_witness:
  "getMinimeArraySize (testToken storeOne) 77 8 = Inr 1 \<and>
   getMinimeAtPosition (testToken storeOne) 77 8 1 (Some 105) = Inr (10, 100, 9000) \<and>
   getMinimeAtPosition (testToken storeOne) 77 8 2 (Some 105) = Inr (0, 0, 9001) \<and>
   arraySlot (testToken storeOne) 77 8 1 = 9000 \<and>
   arraySlot (testToken storeOne) 77 8 2 = 9001 \<and>
   GetProof (testToken storeOne) 77 105 8 =
     Inr \<lparr>Payload = [9000, 9001], StateRoot = 5, Height = 105\<rparr>"
  using GetProof_at_or_beyond_newest [of "testToken storeOne" 77 8 1 105 10 100 9000]
  by (simp add: storeOne_size storeOne_positions testToken_slots int64_def
      erc20_GetProof_testToken)

text \<open>
  The single checkpoint at block 100 and the target block \<open>2 ^ 64 + 5\<close>. The target is
  beyond the checkpoint, but the function compares the low 64 bits of the two numbers,
  5 and 100, does not take the first branch, scans nothing, and fails with
  \<open>checkpoint not found\<close>.
\<close>

theorem GetProof_target_beyond_uint64_counterexample:
  "getMinimeArraySize (testToken storeOne) 77 8 = Inr 1 \<and>
   getMinimeAtPosition (testToken storeOne) 77 8 1 (Some 18446744073709551621) =
     Inr (10, 100, 9000) \<and>
   (100::int) \<le> 18446744073709551621 \<and>
   GetProof (testToken storeOne) 77 18446744073709551621 8 =
     Inl (Errorf ''checkpoint not found'')"
  using GetProof_scan_branch
    [of "testToken storeOne" 77 8 1 18446744073709551621 10 100 9000]
  by (simp add: storeOne_size storeOne_positions Uint64_def int64_def scan_stop)

text \<open>
  C2. The array has length 1 at the latest state, the checkpoint at position 1 has the
  block 100, and at the target block 105 position 2 decodes with the balance 5 and the
  block 200. The function takes the first branch, selects position 2 as the proof of
  nil without looking at its balance or block, and returns the proof of the two keys.
\<close>

theorem GetProof_first_branch_no_nil_check:
  "getMinimeArraySize (testToken storeGrown) 77 8 = Inr 1 \<and>
   getMinimeAtPosition (testToken storeGrown) 77 8 1 (Some 105) = Inr (10, 100, 9000) \<and>
   getMinimeAtPosition (testToken storeGrown) 77 8 2 (Some 105) = Inr (5, 200, 9001) \<and>
   GetProof (testToken storeGrown) 77 105 8 =
     Inr \<lparr>Payload = [9000, 9001], StateRoot = 5, Height = 105\<rparr>"
  using GetProof_first_branch [of "testToken storeGrown" 77 8 1 105 10 100 9000]
  by (simp add: storeGrown_size storeGrown_positions Uint64_def int64_def
      erc20_GetProof_testToken)

text \<open>
  In the scan the check is made: a selected position with a positive balance, or with a
  block whose low 64 bits are not zero, ends the function with the error.
\<close>

lemma scan_nil_check:
  assumes "0 < i"
    and "getMinimeAtPosition m holder islot (i - 1) (Some block) = Inr (b, cb, prevSlot)"
    and "Uint64 block \<le> Uint64 cb"
    and "getMinimeAtPosition m holder islot i (Some block) = Inr (balance, block', currSlot)"
  shows "scanCheckpoints m holder islot block i =
           (if 0 < balance then Inl (Errorf ''proof of nil has a balance value'')
            else if Uint64 block' \<noteq> 0 then Inl (Errorf ''proof of nil has a block value'')
            else Inr [prevSlot, currSlot])"
  using scan_select [OF assms(1,2,3)] assms(4) by simp

text \<open>
  The results for the four checkpoints do not depend on the test token and its storage
  that is the same at every block. For every token whose array has
  the length 4 and whose positions 1 to 4 decode, at the target block, with the blocks
  70, 80, 90 and 100, the target 87 gives an error, whatever the other words hold, and
  the target 50 gives one of the two errors of the nil check.
\<close>

lemma GetProof_blocks_70_to_100_target_87:
  assumes "getMinimeArraySize m holder islot = Inr 4"
    and "getMinimeAtPosition m holder islot 1 (Some 87) = Inr (b1, 70, k1)"
    and "getMinimeAtPosition m holder islot 2 (Some 87) = Inr (b2, 80, k2)"
    and "getMinimeAtPosition m holder islot 3 (Some 87) = Inr (b3, 90, k3)"
    and "getMinimeAtPosition m holder islot 4 (Some 87) = Inr (b4, 100, k4)"
  shows "\<exists>e. GetProof m holder 87 islot = Inl e"
proof -
  have c: "Uint64 87 < Uint64 100" "Uint64 80 < Uint64 87" "Uint64 70 < Uint64 87"
    by (simp_all add: Uint64_def)
  have "scanCheckpoints m holder islot 87 3 = scanCheckpoints m holder islot 87 (3 - 1)"
    using assms(3) c(2) by (intro scan_continue) simp_all
  also have "\<dots> = scanCheckpoints m holder islot 87 (2 - 1)"
    using scan_continue [of 2 m holder islot 87 b1 70 k1] assms(2) c(3) by simp
  finally have s: "scanCheckpoints m holder islot 87 3 = scanCheckpoints m holder islot 87 1"
    by simp
  have g: "GetProof m holder 87 islot =
           (case scanCheckpoints m holder islot 87 1 of
              Inl err \<Rightarrow> Inl err
            | Inr keys \<Rightarrow>
                if keys = [] then Inl (Errorf ''checkpoint not found'')
                else erc20_GetProof m keys (Some 87))"
    using GetProof_scan_branch [OF assms(1,5) c(1)] by (simp add: int64_def s)
  have "\<exists>e. scanCheckpoints m holder islot 87 1 = Inl e \<or>
            scanCheckpoints m holder islot 87 1 = Inr []"
  proof (cases "getMinimeAtPosition m holder islot 0 (Some 87)")
    case (Inl err)
    then show ?thesis
      using scan_read_error [of 1 m holder islot 87 err] by simp
  next
    case (Inr r)
    obtain b0 cb k0 where r: "r = (b0, cb, k0)"
      by (cases r) auto
    show ?thesis
    proof (cases "Uint64 87 \<le> Uint64 cb")
      case True
      then show ?thesis
        using scan_nil_check [of 1 m holder islot 87 b0 cb k0 b1 70 k1] Inr r assms(2)
        by (simp add: Uint64_def)
    next
      case False
      then show ?thesis
        using scan_continue [of 1 m holder islot 87 b0 cb k0] Inr r
        by (simp add: scan_stop)
    qed
  qed
  with g show ?thesis
    by auto
qed

lemma GetProof_blocks_70_to_100_target_50:
  assumes "getMinimeArraySize m holder islot = Inr 4"
    and "getMinimeAtPosition m holder islot 2 (Some 50) = Inr (b2, 80, k2)"
    and "getMinimeAtPosition m holder islot 3 (Some 50) = Inr (b3, 90, k3)"
    and "getMinimeAtPosition m holder islot 4 (Some 50) = Inr (b4, 100, k4)"
  shows "GetProof m holder 50 islot =
           Inl (Errorf (if 0 < b3 then ''proof of nil has a balance value''
                        else ''proof of nil has a block value''))"
proof -
  have c: "Uint64 50 < Uint64 100" "Uint64 50 \<le> Uint64 80"
    by (simp_all add: Uint64_def)
  have "scanCheckpoints m holder islot 50 3 =
          Inl (Errorf (if 0 < b3 then ''proof of nil has a balance value''
                       else ''proof of nil has a block value''))"
    using scan_nil_check [of 3 m holder islot 50 b2 80 k2 b3 90 k3] assms(2,3) c(2)
    by (simp add: Uint64_def)
  then show ?thesis
    using GetProof_scan_branch [OF assms(1,4) c(1)] by (simp add: int64_def)
qed

text \<open>
  C10. Let the array have at least two entries, let the target be older than the block
  of the last one, and let no step of the scan before the last one select. Then the
  result of \<^verbatim>\<open>GetProof\<close> is decided by the word stored at the key
  \<open>hash + (0 - 1)\<close>, the key of position 0: if the block it decodes to is at least the
  target, position 1 is checked for nil and that key is the first of the two keys of the
  proof; if not, the function fails with \<open>checkpoint not found\<close>. Unless the hash is
  zero, this key is the one before the key of position 1, the first entry of the array.
\<close>

theorem GetProof_scan_reads_position_0:
  assumes "getMinimeArraySize m holder islot = Inr count" and "2 \<le> count"
    and "getMinimeAtPosition m holder islot count (Some block) = Inr (bal, mblock, slot)"
    and "Uint64 block < Uint64 mblock"
    and "\<forall>i. 2 \<le> i \<and> i < count \<longrightarrow>
           (\<exists>b cb k. getMinimeAtPosition m holder islot (i - 1) (Some block) = Inr (b, cb, k)
                      \<and> Uint64 cb < Uint64 block)"
  shows "GetProof m holder block islot =
           (case GetTokenData m of
              Inl err \<Rightarrow> Inl (Wrapf ''cannot get minime: '' err)
            | Inr token \<Rightarrow>
           (case StorageAt m (TokenAddr m)
                   (BytesToHash (uint (HashFromPosition m (GetMapSlot m holder islot)) + (0 - 1)))
                   (Some block) of
              Inl err \<Rightarrow> Inl (Wrapf ''cannot get minime: '' err)
            | Inr val \<Rightarrow>
           (case ParseMinimeValue m val (uint (Decimals token)) of
              (balance0, ibalance0, checkpointBlock) \<Rightarrow>
                if Uint64 checkpointBlock \<ge> Uint64 block then
                  (case getMinimeAtPosition m holder islot 1 (Some block) of
                     Inl err \<Rightarrow> Inl err
                   | Inr (balance, block', currSlot) \<Rightarrow>
                       if balance > 0 then Inl (Errorf ''proof of nil has a balance value'')
                       else if Uint64 block' > 0
                         then Inl (Errorf ''proof of nil has a block value'')
                       else erc20_GetProof m
                         [BytesToHash
                            (uint (HashFromPosition m (GetMapSlot m holder islot)) + (0 - 1)),
                          currSlot] (Some block))
                else Inl (Errorf ''checkpoint not found''))))
         \<and> (HashFromPosition m (GetMapSlot m holder islot) \<noteq> 0 \<longrightarrow>
              BytesToHash (uint (HashFromPosition m (GetMapSlot m holder islot)) + (0 - 1)) + 1
                = arraySlot m holder islot 1)"
proof -
  have range: "- (2 ^ 63) \<le> count \<and> count < 2 ^ 63"
    using assms(1) by (rule getMinimeArraySize_range)
  with assms(2) have i: "int64 (count - 1) = count - 1"
    by (intro int64_id) simp_all
  have "scanCheckpoints m holder islot block (count - 1) =
        scanCheckpoints m holder islot block 1"
    using assms(2,5) by (intro scan_descend) auto
  then have g: "GetProof m holder block islot =
           (case scanCheckpoints m holder islot block 1 of
              Inl err \<Rightarrow> Inl err
            | Inr keys \<Rightarrow>
                if keys = [] then Inl (Errorf ''checkpoint not found'')
                else erc20_GetProof m keys (Some block))"
    using GetProof_scan_branch [OF assms(1,3,4)] by (simp add: i)
  have s: "scanCheckpoints m holder islot block 1 =
        (case getMinimeAtPosition m holder islot 0 (Some block) of
           Inl err \<Rightarrow> Inl (Wrapf ''cannot get minime: '' err)
         | Inr (_, checkpointBlock, prevSlot) \<Rightarrow>
             if Uint64 checkpointBlock \<ge> Uint64 block then
               (case getMinimeAtPosition m holder islot 1 (Some block) of
                  Inl err \<Rightarrow> Inl err
                | Inr (balance, block', currSlot) \<Rightarrow>
                    if balance > 0 then Inl (Errorf ''proof of nil has a balance value'')
                    else if Uint64 block' > 0 then Inl (Errorf ''proof of nil has a block value'')
                    else Inr [prevSlot, currSlot])
             else Inr [])"
    by (subst scanCheckpoints.simps) (simp add: scan_stop split: sum.splits prod.splits)
  have first: ?thesis if "HashFromPosition m (GetMapSlot m holder islot) \<noteq> 0 \<longrightarrow>
              BytesToHash (uint (HashFromPosition m (GetMapSlot m holder islot)) + (0 - 1)) + 1
                = arraySlot m holder islot 1"
    unfolding g s using that
    by (auto simp: getMinimeAtPosition_def [of m holder islot 0] arraySlot_position_0
        split: sum.splits prod.splits)
  show ?thesis
    using before_first_entry [of "HashFromPosition m (GetMapSlot m holder islot)"]
    by (intro first) (simp add: arraySlot_position_1)
qed


text \<open>
  Two arrays and the target block 87. In the first the word before the array decodes
  with the block 90: the function returns the proof of the keys 8999 and 9000, the first
  of which is not a key of the array. In the second (the four checkpoints) that word is
  unset and the function fails.
\<close>

theorem GetProof_scan_reads_position_0_witness:
  "getMinimeArraySize (testToken storeBefore) 77 8 = Inr 2 \<and>
   getMinimeAtPosition (testToken storeBefore) 77 8 2 (Some 87) = Inr (10, 100, 9001) \<and>
   arraySlot (testToken storeBefore) 77 8 1 = 9000 \<and>
   StorageAt (testToken storeBefore) (TokenAddr (testToken storeBefore)) 8999 (Some 87) =
     Inr (checkpointWord 3 90) \<and>
   GetProof (testToken storeBefore) 77 87 8 =
     Inr \<lparr>Payload = [8999, 9000], StateRoot = 5, Height = 87\<rparr> \<and>
   getMinimeArraySize (testToken storeFour) 77 8 = Inr 4 \<and>
   StorageAt (testToken storeFour) (TokenAddr (testToken storeFour)) 8999 (Some 87) =
     Inr zeroWord \<and>
   GetProof (testToken storeFour) 77 87 8 = Inl (Errorf ''checkpoint not found'')"
proof -
  have h: "HashFromPosition (testToken store) (GetMapSlot (testToken store) 77 8) = 9000"
    for store
    by (simp add: testToken_def)
  have k: "BytesToHash (uint (9000 :: hash) + (0 - 1)) = 8999"
    by (simp add: BytesToHash_def)
  have d: "uint (Decimals \<lparr>Address = 1, Name = ''Token'', Symbol = ''TKN'', Decimals = 0,
             TotalSupply = 1000\<rparr>) = 0"
    by simp
  have p: "ParseMinimeValue (testToken store) = parseTest" for store
    by (simp add: testToken_def)
  have r1: "StorageAt (testToken storeBefore) (TokenAddr (testToken storeBefore)) 8999 (Some 87)
              = Inr (checkpointWord 3 90)"
    by (simp add: testToken_def storeBefore_def)
  have r2: "StorageAt (testToken storeFour) (TokenAddr (testToken storeFour)) 8999 (Some 87)
              = Inr zeroWord"
    by (simp add: testToken_def storeFour_def)
  have a: "\<forall>i. 2 \<le> i \<and> i < (2::int) \<longrightarrow>
             (\<exists>b cb k. getMinimeAtPosition (testToken storeBefore) 77 8 (i - 1) (Some 87)
                          = Inr (b, cb, k) \<and> Uint64 cb < Uint64 87)"
    by (intro allI impI) linarith
  have "\<exists>b cb k. getMinimeAtPosition (testToken storeFour) 77 8 (i - 1) (Some 87) = Inr (b, cb, k)
           \<and> Uint64 cb < Uint64 87" if "2 \<le> i \<and> i < 4" for i
  proof -
    from that consider "i = 2" | "i = 3"
      by linarith
    then show ?thesis
      by cases (simp_all add: storeFour_positions Uint64_def)
  qed
  then have b: "\<forall>i. 2 \<le> i \<and> i < (4::int) \<longrightarrow>
             (\<exists>b cb k. getMinimeAtPosition (testToken storeFour) 77 8 (i - 1) (Some 87)
                          = Inr (b, cb, k) \<and> Uint64 cb < Uint64 87)"
    by blast
  have c: "Uint64 87 < Uint64 100"
    by (simp add: Uint64_def)
  have g1: "GetProof (testToken storeBefore) 77 87 8 =
     Inr \<lparr>Payload = [8999, 9000], StateRoot = 5, Height = 87\<rparr>"
    using GetProof_scan_reads_position_0
      [OF storeBefore_size [of 77] _ storeBefore_positions(3) [of 77 "Some 87"] c a]
    unfolding h k GetTokenData_testToken sum.case r1 d p parseTest_checkpointWord prod.case
    by (simp add: Uint64_def storeBefore_positions erc20_GetProof_testToken)
  have g2: "GetProof (testToken storeFour) 77 87 8 = Inl (Errorf ''checkpoint not found'')"
    using GetProof_scan_reads_position_0
      [OF storeFour_size [of 77] _ storeFour_positions(5) [of 77 "Some 87"] c b]
    unfolding h k GetTokenData_testToken sum.case r2 d p parseTest_zeroWord prod.case
    by (simp add: Uint64_def)
  show ?thesis
    using g1 g2 r1 r2 by (simp add: storeBefore_size storeFour_size storeBefore_positions
        testToken_slots)
qed

section \<open>Slot discovery\<close>

lemma discoverLoop_end:
  "maxIterationsForDiscover \<le> i \<Longrightarrow>
     discoverLoop m holder balance i = (-1, None, Some ErrSlotNotFound)"
  by (subst discoverLoop.simps) simp

lemma discoverLoop_size_error:
  assumes "i < maxIterationsForDiscover" and "getMinimeArraySize m holder i = Inl err"
  shows "discoverLoop m holder balance i = (0, None, Some err)"
  using assms by (subst discoverLoop.simps) simp

lemma discoverLoop_read_error:
  assumes "i < maxIterationsForDiscover" and "getMinimeArraySize m holder i = Inr sz"
    and "0 < sz" and "getMinimeAtPosition m holder i sz None = Inl err"
  shows "discoverLoop m holder balance i = discoverLoop m holder balance (i + 1)"
  using assms by (subst discoverLoop.simps) simp

lemma discoverLoop_match:
  assumes "i < maxIterationsForDiscover" and "candidateMatches m holder balance i"
  shows "discoverLoop m holder balance i = (i, Some balance, None)"
  using assms
  by (subst discoverLoop.simps)
    (auto simp: candidateMatches_def split: sum.splits prod.splits)

lemma discoverLoop_skip:
  assumes "i < maxIterationsForDiscover" and "getMinimeArraySize m holder i = Inr sz"
    and "\<not> candidateMatches m holder balance i"
  shows "discoverLoop m holder balance i = discoverLoop m holder balance (i + 1)"
  using assms
  by (subst discoverLoop.simps)
    (auto simp: candidateMatches_def split: sum.splits prod.splits)

lemma discoverLoop_skip_many:
  assumes "i \<le> k" and "k \<le> maxIterationsForDiscover"
    and "\<forall>j. i \<le> j \<and> j < k \<longrightarrow>
           \<not> candidateMatches m holder balance j \<and> (\<exists>sz. getMinimeArraySize m holder j = Inr sz)"
  shows "discoverLoop m holder balance i = discoverLoop m holder balance k"
  using assms
proof (induction k rule: int_ge_induct)
  case base
  show ?case by simp
next
  case (step k)
  have "discoverLoop m holder balance i = discoverLoop m holder balance k"
    using step.prems by (intro step.IH) auto
  moreover have "discoverLoop m holder balance k = discoverLoop m holder balance (k + 1)"
  proof -
    from step.prems(2) step.hyps obtain sz where
      "getMinimeArraySize m holder k = Inr sz" and "\<not> candidateMatches m holder balance k"
      by auto
    then show ?thesis
      using step.prems(1) by (intro discoverLoop_skip [of k m holder sz]) simp_all
  qed
  ultimately show ?case by simp
qed

lemma discoverLoop_selected:
  "discoverLoop m holder balance i = (k, amount, None) \<Longrightarrow>
     i \<le> k \<and> k < maxIterationsForDiscover \<and> candidateMatches m holder balance k \<and>
     amount = Some balance"
proof (induction m holder balance i rule: discoverLoop.induct)
  case (1 m holder balance i)
  show ?case
  proof (cases "i < maxIterationsForDiscover")
    case False
    with "1.prems" show ?thesis
      by (simp add: discoverLoop_end)
  next
    case True
    show ?thesis
    proof (cases "getMinimeArraySize m holder i")
      case (Inl err)
      with True "1.prems" show ?thesis
        by (simp add: discoverLoop_size_error)
    next
      case (Inr sz)
      show ?thesis
      proof (cases "candidateMatches m holder balance i")
        case m: True
        with True "1.prems" show ?thesis
          by (simp add: discoverLoop_match)
      next
        case False
        have next_eq: "discoverLoop m holder balance (i + 1) = (k, amount, None)"
          using discoverLoop_skip [OF True Inr False] "1.prems" by simp
        have "i + 1 \<le> k \<and> k < maxIterationsForDiscover \<and> candidateMatches m holder balance k \<and>
              amount = Some balance"
        proof (cases "sz \<le> 0")
          case True
          from "1.IH"(1) [OF \<open>i < maxIterationsForDiscover\<close> Inr True next_eq]
          show ?thesis .
        next
          case pos: False
          show ?thesis
          proof (cases "getMinimeAtPosition m holder i sz None")
            case (Inl err)
            from "1.IH"(2) [OF \<open>i < maxIterationsForDiscover\<close> Inr pos Inl next_eq]
            show ?thesis .
          next
            case r: (Inr r)
            obtain a blk key where t: "r = (a, blk, key)"
              by (cases r) auto
            show ?thesis
            proof (cases "Uint64 blk = 0")
              case True
              from "1.IH"(3) [OF \<open>i < maxIterationsForDiscover\<close> Inr pos r t [THEN sym] refl
                  True next_eq]
              show ?thesis .
            next
              case nz: False
              with False Inr pos r t have "a \<noteq> balance"
                by (auto simp: candidateMatches_def)
              from "1.IH"(4) [OF \<open>i < maxIterationsForDiscover\<close> Inr pos r t [THEN sym] refl
                  nz this next_eq]
              show ?thesis .
            qed
          qed
        qed
        then show ?thesis by simp
      qed
    qed
  qed
qed

lemma DiscoverSlot_first:
  assumes "Balance m holder = Inr balance"
    and "0 \<le> k" and "k < 20" and "candidateMatches m holder balance k"
    and "\<forall>j. 0 \<le> j \<and> j < k \<longrightarrow>
           \<not> candidateMatches m holder balance j \<and> (\<exists>sz. getMinimeArraySize m holder j = Inr sz)"
  shows "DiscoverSlot m holder = (k, Some balance, None)"
proof -
  have "discoverLoop m holder balance 0 = discoverLoop m holder balance k"
    using assms(2,3,5) by (intro discoverLoop_skip_many) (simp_all add: maxIterationsForDiscover_def)
  also have "\<dots> = (k, Some balance, None)"
    using assms(3,4) by (intro discoverLoop_match) (simp_all add: maxIterationsForDiscover_def)
  finally show ?thesis
    by (simp add: DiscoverSlot_def assms(1))
qed

lemma DiscoverSlot_none:
  assumes "Balance m holder = Inr balance"
    and "\<forall>j. 0 \<le> j \<and> j < 20 \<longrightarrow>
           \<not> candidateMatches m holder balance j \<and> (\<exists>sz. getMinimeArraySize m holder j = Inr sz)"
  shows "DiscoverSlot m holder = (-1, None, Some ErrSlotNotFound)"
proof -
  have "discoverLoop m holder balance 0 = discoverLoop m holder balance 20"
    using assms(2) by (intro discoverLoop_skip_many) (simp_all add: maxIterationsForDiscover_def)
  also have "\<dots> = (-1, None, Some ErrSlotNotFound)"
    by (intro discoverLoop_end) (simp add: maxIterationsForDiscover_def)
  finally show ?thesis
    by (simp add: DiscoverSlot_def assms(1))
qed

lemma storeRefused_facts:
  "getMinimeArraySize (testToken storeRefused) h 0 = Inl (Remote ''connection refused'')"
  "getMinimeArraySize (testToken storeRefused) h 1 = Inr 1"
  "getMinimeAtPosition (testToken storeRefused) h 1 1 b = Inr (10, 100, 2000)"
proof -
  show "getMinimeArraySize (testToken storeRefused) h 0 = Inl (Remote ''connection refused'')"
    by (rule getMinimeArraySize_Inl) (simp add: testToken_def storeRefused_def)
  show "getMinimeArraySize (testToken storeRefused) h 1 = Inr 1"
    using getMinimeArraySize_testToken [of storeRefused 1 "lengthWord 1" h]
    by (simp add: storeRefused_def SetBytes_lengthWord int_of_uint64_def)
  show "getMinimeAtPosition (testToken storeRefused) h 1 1 b = Inr (10, 100, 2000)"
    using getMinimeAtPosition_testToken [of storeRefused h 1 1 b "checkpointWord 10 100"]
    by (simp add: arraySlot_testToken storeRefused_def parseTest_checkpointWord)
qed

lemma storeRefused_loop:
  "discoverLoop (testToken storeRefused) h 10 0 = (0, None, Some (Remote ''connection refused''))"
  "discoverLoop (testToken storeRefused) h 10 1 = (1, Some 10, None)"
proof -
  show "discoverLoop (testToken storeRefused) h 10 0
          = (0, None, Some (Remote ''connection refused''))"
    by (rule discoverLoop_size_error)
      (simp_all add: maxIterationsForDiscover_def storeRefused_facts)
  show "discoverLoop (testToken storeRefused) h 10 1 = (1, Some 10, None)"
    by (rule discoverLoop_match)
      (simp_all add: maxIterationsForDiscover_def candidateMatches_def storeRefused_facts
        Uint64_def)
qed

lemma storeSearch_sizes:
  "getMinimeArraySize (testToken storeSearch) h 0 = Inr 0"
  "getMinimeArraySize (testToken storeSearch) h 1 = Inr 0"
  "getMinimeArraySize (testToken storeSearch) h 2 = Inr 0"
  "getMinimeArraySize (testToken storeSearch) h 3 = Inr 2"
  "getMinimeArraySize (testToken storeSearch) h 4 = Inr 1"
  "getMinimeArraySize (testToken storeSearch) h 5 = Inr 1"
  using getMinimeArraySize_testToken [of storeSearch 0 zeroWord h]
    getMinimeArraySize_testToken [of storeSearch 1 zeroWord h]
    getMinimeArraySize_testToken [of storeSearch 2 zeroWord h]
    getMinimeArraySize_testToken [of storeSearch 3 "lengthWord 2" h]
    getMinimeArraySize_testToken [of storeSearch 4 "lengthWord 1" h]
    getMinimeArraySize_testToken [of storeSearch 5 "lengthWord 1" h]
  by (simp_all add: storeSearch_def SetBytes_lengthWord SetBytes_zeroWord int_of_uint64_def)

lemma storeSearch_positions:
  "getMinimeAtPosition (testToken storeSearch) h 3 2 b = Inr (10, 0, 4001)"
  "getMinimeAtPosition (testToken storeSearch) h 4 1 b = Inl (Remote ''timeout'')"
  "getMinimeAtPosition (testToken storeSearch) h 5 1 b = Inr (10, 100, 6000)"
  using getMinimeAtPosition_testToken [of storeSearch h 3 2 b "checkpointWord 10 0"]
    getMinimeAtPosition_testToken_error [of storeSearch h 4 1 b "Remote ''timeout''"]
    getMinimeAtPosition_testToken [of storeSearch h 5 1 b "checkpointWord 10 100"]
  by (simp_all add: arraySlot_testToken storeSearch_def parseTest_checkpointWord)

lemma storeSearch_candidates:
  "0 \<le> j \<and> j < 5 \<Longrightarrow>
     \<not> candidateMatches (testToken storeSearch) h 10 j \<and>
     (\<exists>sz. getMinimeArraySize (testToken storeSearch) h j = Inr sz)"
  "candidateMatches (testToken storeSearch) h 10 5"
proof -
  show "candidateMatches (testToken storeSearch) h 10 5"
    by (simp add: candidateMatches_def storeSearch_sizes storeSearch_positions Uint64_def)
  assume "0 \<le> j \<and> j < 5"
  then consider "j = 0" | "j = 1" | "j = 2" | "j = 3" | "j = 4"
    by linarith
  then show "\<not> candidateMatches (testToken storeSearch) h 10 j \<and>
     (\<exists>sz. getMinimeArraySize (testToken storeSearch) h j = Inr sz)"
    by cases
      (simp_all add: candidateMatches_def storeSearch_sizes storeSearch_positions Uint64_def)
qed

lemma storeSearch_DiscoverSlot: "DiscoverSlot (testToken storeSearch) h = (5, Some 10, None)"
  by (rule DiscoverSlot_first) (simp_all add: Balance_testToken storeSearch_candidates)

lemma storeEmpty_size: "getMinimeArraySize (testToken storeEmpty) h j = Inr 0"
  using getMinimeArraySize_testToken [of storeEmpty j zeroWord h]
  by (simp add: storeEmpty_def SetBytes_zeroWord int_of_uint64_def)

lemma storeEmpty_candidates:
  "\<not> candidateMatches (testToken storeEmpty) h 10 j \<and>
     (\<exists>sz. getMinimeArraySize (testToken storeEmpty) h j = Inr sz)"
  by (simp add: candidateMatches_def storeEmpty_size)

text \<open>
  C5 (as amended). Let the balance call succeed. If candidate \<open>k\<close> of the range
  \<open>0 \<le> k < 20\<close> passes the tests of the loop (a positive length, a top entry that reads
  with a block that is not zero and with the holder's balance), no smaller candidate
  passes them, and the length of every smaller candidate can be read, then
  \<^verbatim>\<open>DiscoverSlot\<close> returns \<open>k\<close> and the balance. If no candidate of the range passes
  them and every length can be read, it returns \<open>ErrSlotNotFound\<close> with the index -1.
\<close>

theorem DiscoverSlot_smallest_matching_candidate:
  assumes "Balance m holder = Inr balance"
  shows "(0 \<le> k \<and> k < 20 \<and> candidateMatches m holder balance k \<and>
          (\<forall>j. 0 \<le> j \<and> j < k \<longrightarrow>
             \<not> candidateMatches m holder balance j \<and>
             (\<exists>sz. getMinimeArraySize m holder j = Inr sz))
          \<longrightarrow> DiscoverSlot m holder = (k, Some balance, None)) \<and>
         ((\<forall>j. 0 \<le> j \<and> j < 20 \<longrightarrow>
             \<not> candidateMatches m holder balance j \<and>
             (\<exists>sz. getMinimeArraySize m holder j = Inr sz))
          \<longrightarrow> DiscoverSlot m holder = (-1, None, Some ErrSlotNotFound))"
  using DiscoverSlot_first [OF assms] DiscoverSlot_none [OF assms] by blast

text \<open>
  The holder's checkpoint is under candidate 5, behind an entry with the same balance and
  the block 0 and behind an entry that cannot be read; and a token with no checkpoints.
\<close>

theorem DiscoverSlot_smallest_matching_candidate_witness:
  "Balance (testToken storeSearch) 77 = Inr 10 \<and>
   candidateMatches (testToken storeSearch) 77 10 5 \<and>
   DiscoverSlot (testToken storeSearch) 77 = (5, Some 10, None) \<and>
   Balance (testToken storeEmpty) 77 = Inr 10 \<and>
   DiscoverSlot (testToken storeEmpty) 77 = (-1, None, Some ErrSlotNotFound)"
  using DiscoverSlot_smallest_matching_candidate [of "testToken storeSearch" 77 10 5]
    DiscoverSlot_smallest_matching_candidate [of "testToken storeEmpty" 77 10 0]
  by (simp add: Balance_testToken storeSearch_candidates storeEmpty_candidates)

text \<open>
  The length of candidate 0 cannot be read and candidate 1 passes every test:
  \<^verbatim>\<open>DiscoverSlot\<close> returns the error of the read, neither candidate 1 nor
  \<open>ErrSlotNotFound\<close>.
\<close>

theorem DiscoverSlot_length_read_counterexample:
  "Balance (testToken storeRefused) 77 = Inr 10 \<and>
   getMinimeArraySize (testToken storeRefused) 77 0 = Inl (Remote ''connection refused'') \<and>
   getMinimeArraySize (testToken storeRefused) 77 1 = Inr 1 \<and>
   getMinimeAtPosition (testToken storeRefused) 77 1 1 None = Inr (10, 100, 2000) \<and>
   DiscoverSlot (testToken storeRefused) 77 = (0, None, Some (Remote ''connection refused''))"
  by (simp add: Balance_testToken storeRefused_facts DiscoverSlot_def storeRefused_loop)

text \<open>
  C6 (as amended). Within the range, a failing read of the top entry makes the loop go on
  with the next candidate; a failing read of the array length ends it with the index 0,
  no amount and the error of the read.
\<close>

theorem discoverLoop_read_errors:
  assumes "i < 20"
  shows "(getMinimeArraySize m holder i = Inl err \<longrightarrow>
            discoverLoop m holder balance i = (0, None, Some err)) \<and>
         (getMinimeArraySize m holder i = Inr sz \<and> 0 < sz \<and>
          getMinimeAtPosition m holder i sz None = Inl err \<longrightarrow>
            discoverLoop m holder balance i = discoverLoop m holder balance (i + 1))"
  using assms discoverLoop_size_error [of i m holder err balance]
    discoverLoop_read_error [of i m holder sz err balance]
  by (simp add: maxIterationsForDiscover_def)

text \<open>
  The top entry of candidate 4 cannot be read and the search goes on to candidate 5; the
  length of candidate 0 of the other token cannot be read and the search ends.
\<close>

theorem discoverLoop_read_errors_witness:
  "getMinimeArraySize (testToken storeSearch) 77 4 = Inr 1 \<and>
   getMinimeAtPosition (testToken storeSearch) 77 4 1 None = Inl (Remote ''timeout'') \<and>
   discoverLoop (testToken storeSearch) 77 10 4 = discoverLoop (testToken storeSearch) 77 10 5 \<and>
   DiscoverSlot (testToken storeSearch) 77 = (5, Some 10, None) \<and>
   getMinimeArraySize (testToken storeRefused) 77 0 = Inl (Remote ''connection refused'') \<and>
   discoverLoop (testToken storeRefused) 77 10 0 = (0, None, Some (Remote ''connection refused''))"
  using discoverLoop_read_errors [of 4 "testToken storeSearch" 77 "Remote ''timeout''" 10 1]
    discoverLoop_read_errors
      [of 0 "testToken storeRefused" 77 "Remote ''connection refused''" 10 0]
  by (simp add: storeSearch_sizes storeSearch_positions storeSearch_DiscoverSlot
      storeRefused_facts)

text \<open>
  The failing length read of candidate 0 ends the search, although going on with
  candidate 1 would find the holder's checkpoint.
\<close>

theorem discoverLoop_length_read_counterexample:
  "getMinimeArraySize (testToken storeRefused) 77 0 = Inl (Remote ''connection refused'') \<and>
   discoverLoop (testToken storeRefused) 77 10 1 = (1, Some 10, None) \<and>
   discoverLoop (testToken storeRefused) 77 10 0 \<noteq> discoverLoop (testToken storeRefused) 77 10 1 \<and>
   DiscoverSlot (testToken storeRefused) 77 = (0, None, Some (Remote ''connection refused''))"
  by (simp add: Balance_testToken storeRefused_facts DiscoverSlot_def storeRefused_loop)

lemma candidateMatchesD:
  assumes "candidateMatches m holder balance k"
  shows "\<exists>val sz blk key.
           StorageAt m (TokenAddr m) (GetMapSlot m holder k) None = Inr val \<and>
           SetBytes val \<noteq> 0 \<and>
           getMinimeArraySize m holder k = Inr sz \<and> 0 < sz \<and>
           getMinimeAtPosition m holder k sz None = Inr (balance, blk, key) \<and> blk \<noteq> 0"
proof -
  from assms obtain sz where sz: "getMinimeArraySize m holder k = Inr sz" and pos: "0 < sz"
    and top: "case getMinimeAtPosition m holder k sz None of
                Inl err \<Rightarrow> False
              | Inr (amount, block, _) \<Rightarrow> Uint64 block \<noteq> 0 \<and> amount = balance"
    by (auto simp: candidateMatches_def split: sum.splits)
  from top obtain blk key where
    r: "getMinimeAtPosition m holder k sz None = Inr (balance, blk, key)"
    and nz: "Uint64 blk \<noteq> 0"
    by (auto split: sum.splits prod.splits)
  from sz obtain val where
    v: "StorageAt m (TokenAddr m) (GetMapSlot m holder k) None = Inr val"
    by (auto simp: getMinimeArraySize_def split: sum.splits)
  have e: "sz = int_of_uint64 (SetBytes val mod 2 ^ 64)"
    using getMinimeArraySize_Inr [OF v] sz by simp
  have "SetBytes val \<noteq> 0"
  proof
    assume "SetBytes val = 0"
    with e have "sz = 0"
      by (simp add: int_of_uint64_def)
    with pos show False
      by simp
  qed
  moreover have "blk \<noteq> 0"
    using nz by (rule Uint64_eq_0D)
  ultimately show ?thesis
    using v sz pos r by blast
qed

text \<open>
  C7. Whenever \<^verbatim>\<open>DiscoverSlot\<close> returns an index without an error, the index is in
  the range, the word read at its array-length slot is not 0, the length is positive, and
  the top entry (the position equal to the length) decodes with a block number that is
  not 0 and with the balance of the holder, which is the amount returned.
\<close>

theorem DiscoverSlot_selects_nonempty_only:
  assumes "DiscoverSlot m holder = (k, amount, None)"
  shows "\<exists>val sz a blk key.
           0 \<le> k \<and> k < 20 \<and>
           StorageAt m (TokenAddr m) (GetMapSlot m holder k) None = Inr val \<and>
           SetBytes val \<noteq> 0 \<and>
           getMinimeArraySize m holder k = Inr sz \<and> 0 < sz \<and>
           getMinimeAtPosition m holder k sz None = Inr (a, blk, key) \<and> blk \<noteq> 0 \<and>
           amount = Some a \<and> Balance m holder = Inr a"
proof (cases "Balance m holder")
  case (Inl err)
  with assms show ?thesis
    by (simp add: DiscoverSlot_def)
next
  case (Inr balance)
  with assms have "discoverLoop m holder balance 0 = (k, amount, None)"
    by (simp add: DiscoverSlot_def)
  then have s: "0 \<le> k \<and> k < maxIterationsForDiscover \<and> candidateMatches m holder balance k \<and>
     amount = Some balance"
    by (rule discoverLoop_selected)
  then obtain val sz blk key where
    "StorageAt m (TokenAddr m) (GetMapSlot m holder k) None = Inr val"
    "SetBytes val \<noteq> 0" "getMinimeArraySize m holder k = Inr sz" "0 < sz"
    "getMinimeAtPosition m holder k sz None = Inr (balance, blk, key)" "blk \<noteq> 0"
    using candidateMatchesD [of m holder balance k] by blast
  with s Inr show ?thesis
    unfolding maxIterationsForDiscover_def by blast
qed

text \<open>
  Candidate 3 has a length that is not 0 and a top entry with the holder's balance, but
  with the block 0; candidates 0 to 2 have the length 0. The index returned is 5.
\<close>

theorem DiscoverSlot_selects_nonempty_only_witness:
  "getMinimeArraySize (testToken storeSearch) 77 0 = Inr 0 \<and>
   getMinimeArraySize (testToken storeSearch) 77 3 = Inr 2 \<and>
   getMinimeAtPosition (testToken storeSearch) 77 3 2 None = Inr (10, 0, 4001) \<and>
   Balance (testToken storeSearch) 77 = Inr 10 \<and>
   DiscoverSlot (testToken storeSearch) 77 = (5, Some 10, None) \<and>
   (\<exists>val sz a blk key.
      StorageAt (testToken storeSearch) (TokenAddr (testToken storeSearch))
        (GetMapSlot (testToken storeSearch) 77 5) None = Inr val \<and>
      SetBytes val \<noteq> 0 \<and>
      getMinimeArraySize (testToken storeSearch) 77 5 = Inr sz \<and> 0 < sz \<and>
      getMinimeAtPosition (testToken storeSearch) 77 5 sz None = Inr (a, blk, key) \<and>
      blk \<noteq> 0 \<and> Balance (testToken storeSearch) 77 = Inr a)"
proof -
  have "\<exists>val sz a blk key.
      (0::int) \<le> 5 \<and> (5::int) < 20 \<and>
      StorageAt (testToken storeSearch) (TokenAddr (testToken storeSearch))
        (GetMapSlot (testToken storeSearch) 77 5) None = Inr val \<and>
      SetBytes val \<noteq> 0 \<and>
      getMinimeArraySize (testToken storeSearch) 77 5 = Inr sz \<and> 0 < sz \<and>
      getMinimeAtPosition (testToken storeSearch) 77 5 sz None = Inr (a, blk, key) \<and>
      blk \<noteq> 0 \<and> Some 10 = Some a \<and> Balance (testToken storeSearch) 77 = Inr a"
    by (rule DiscoverSlot_selects_nonempty_only) (rule storeSearch_DiscoverSlot)
  then show ?thesis
    by (simp add: storeSearch_sizes storeSearch_positions Balance_testToken
        storeSearch_DiscoverSlot)
qed

section \<open>Token metadata\<close>

text \<open>
  What \<^verbatim>\<open>GetTokenData\<close> does with a failing call. A name or symbol call that fails
  with a message containing \<open>unmarshal an empty string\<close> gives the field its
  placeholder, and the result is the one the function has when the call returns the
  placeholder. A name or symbol call that fails with any other message, a failing
  decimals call and a failing total-supply call each make the function return an error.
\<close>

lemma GetTokenData_outcomes:
  "(CallName w = Inl err \<and> Contains (Error err) ''unmarshal an empty string'' \<longrightarrow>
      GetTokenData w = GetTokenData (w\<lparr>CallName := Inr ''unknown-name''\<rparr>)) \<and>
   (CallSymbol w = Inl err \<and> Contains (Error err) ''unmarshal an empty string'' \<longrightarrow>
      GetTokenData w = GetTokenData (w\<lparr>CallSymbol := Inr ''unknown-symbol''\<rparr>)) \<and>
   (CallName w = Inl err \<and> \<not> Contains (Error err) ''unmarshal an empty string'' \<longrightarrow>
      GetTokenData w = Inl (Errorf (''unable to get token name data: '' @ Error err))) \<and>
   (CallSymbol w = Inl err \<and> \<not> Contains (Error err) ''unmarshal an empty string'' \<longrightarrow>
      (\<exists>e. GetTokenData w = Inl e)) \<and>
   (CallDecimals w = Inl err \<longrightarrow> (\<exists>e. GetTokenData w = Inl e)) \<and>
   (CallTotalSupply w = Inl err \<longrightarrow> (\<exists>e. GetTokenData w = Inl e)) \<and>
   (CallDecimals w = Inr d \<and> CallTotalSupply w = Inr t \<and>
    (CallName w = Inr n \<or>
     (\<exists>e. CallName w = Inl e \<and> Contains (Error e) ''unmarshal an empty string'' \<and>
          n = ''unknown-name'')) \<and>
    (CallSymbol w = Inr s \<or>
     (\<exists>e. CallSymbol w = Inl e \<and> Contains (Error e) ''unmarshal an empty string'' \<and>
          s = ''unknown-symbol'')) \<longrightarrow>
      GetTokenData w =
        Inr \<lparr>Address = TokenAddr w, Name = n, Symbol = s, Decimals = d, TotalSupply = t\<rparr>)"
  by (auto simp: GetTokenData_def TokenName_def TokenSymbol_def TokenDecimals_def
      TokenTotalSupply_def split: sum.splits)

text \<open>
  The marker of the source, spelled with one l, is not a part of the decoder's message,
  spelled with two; it is a part of the same message spelled with one.
\<close>

lemma emptyResult_no_marker:
  "\<not> Contains (Error emptyResult) ''unmarshal an empty string''"
  by (simp add: emptyResult_def)

lemma one_l_has_marker:
  "Contains ''abi: attempting to unmarshal an empty string while arguments are expected''
     ''unmarshal an empty string''"
  by simp

lemma GetTokenData_one_l_placeholder:
  "GetTokenData (testToken storeEmpty
     \<lparr>CallName := Inl (Remote
        ''abi: attempting to unmarshal an empty string while arguments are expected'')\<rparr>) =
     Inr \<lparr>Address = 1, Name = ''unknown-name'', Symbol = ''TKN'', Decimals = 0,
          TotalSupply = 1000\<rparr>"
  by (simp add: GetTokenData_def TokenName_def TokenSymbol_def TokenDecimals_def
      TokenTotalSupply_def testToken_def)

text \<open>
  C9. The name call, and in a second token the symbol call, fails with the decoder's
  error for an empty result, while the other three calls succeed. The function looks for
  the marker \<open>unmarshal an empty string\<close>, does not find it in the message, and
  returns an error: the field does not get its placeholder \<open>unknown-name\<close> or
  \<open>unknown-symbol\<close> and the call does not succeed.
\<close>

theorem GetTokenData_empty_result_is_fatal:
  "GetTokenData (testToken storeEmpty\<lparr>CallName := Inl emptyResult\<rparr>) =
     Inl (Errorf (''unable to get token name data: '' @ Error emptyResult)) \<and>
   GetTokenData (testToken storeEmpty\<lparr>CallSymbol := Inl emptyResult\<rparr>) =
     Inl (Errorf (''unable to get token symbol data: '' @ Error emptyResult))"
proof -
  have n: "\<not> Contains (Error emptyResult) ''unmarshal an empty string''"
    by (rule emptyResult_no_marker)
  have "GetTokenData (testToken storeEmpty\<lparr>CallName := Inl emptyResult\<rparr>) =
     Inl (Errorf (''unable to get token name data: '' @ Error emptyResult))"
    using n by (simp add: GetTokenData_def TokenName_def testToken_def)
  moreover have "GetTokenData (testToken storeEmpty\<lparr>CallSymbol := Inl emptyResult\<rparr>) =
     Inl (Errorf (''unable to get token symbol data: '' @ Error emptyResult))"
    using n by (simp add: GetTokenData_def TokenName_def TokenSymbol_def testToken_def)
  ultimately show ?thesis
    by simp
qed

end
